theory Spec2Isabelle
  imports Main
begin

section \<open>Data model\<close>

text \<open>
  The order and stock-reservation handlers of \<^verbatim>\<open>main.go\<close> work on a relational store
  through SQL statements. The store is a record of its tables. A table whose rows the
  handlers enumerate is a list of rows in storage order; a table that is only read and
  written through its primary key is a map from the key to the columns used.

  Instants and durations are integers (seconds). Columns that no modelled statement
  reads (\<^verbatim>\<open>created_at\<close>, \<^verbatim>\<open>updated_at\<close>, the surrogate keys of \<^verbatim>\<open>order_items\<close> and
  \<^verbatim>\<open>temp_stock_details\<close>) are left out.
\<close>

type_synonym time = int

definition Hour :: int where
  "Hour = 3600"

text \<open>The Go struct \<^verbatim>\<open>OrderItemModel\<close>, also the row type of \<^verbatim>\<open>order_items\<close>.\<close>

record OrderItemModel =
  OrderID :: int
  ProductID :: int
  ProductVariantID :: "int option"
  Quantity :: int
  PriceAtPurchase :: int
  TotalPrice :: int

record cart_item_row =
  ci_id :: int
  ci_cart_id :: int
  ci_product_id :: int
  ci_product_variant_id :: "int option"
  ci_quantity :: int
  ci_price_per_item :: int
  ci_total_price :: int

record order_row =
  o_id :: int
  o_user_id :: int
  o_cart_user_id :: "int option"
  o_status :: string
  o_total_price :: int
  o_timer_expiration :: time

record reservation_row =
  r_id :: int
  r_user_id :: int
  r_order_id :: int
  r_reserved_at :: time
  r_expired_at :: time

record detail_row =
  d_temp_reservation_id :: int
  d_product_id :: int
  d_product_variant_id :: "int option"
  d_quantity :: int

text \<open>
  The handlers name two credit columns of \<^verbatim>\<open>users\<close>: \<^verbatim>\<open>CreateOrder\<close> selects \<^verbatim>\<open>heart\<close>
  (the column the registration inserts), \<^verbatim>\<open>CheckAndExpireOrders\<close> updates \<^verbatim>\<open>hearts\<close>, and
  \<^verbatim>\<open>CreateStockReservation\<close> selects \<^verbatim>\<open>hearts\<close>. The schema is not part of the sources,
  so the row keeps both columns under the names the statements use.
\<close>

record user_row =
  heart :: int
  hearts :: int

text \<open>
  \<open>products\<close> and \<open>product_variants\<close> map an id to the \<^verbatim>\<open>stock\<close> column; \<open>None\<close> stands
  for a missing row and for a row whose stock is \<^verbatim>\<open>NULL\<close> (the stock statements leave
  both alone). \<open>carts\<close> maps the cart id to \<^verbatim>\<open>total_price\<close>. The two counters are the
  \<^verbatim>\<open>AUTO_INCREMENT\<close> values behind \<^verbatim>\<open>LastInsertId\<close>.
\<close>

record db =
  products :: "int \<rightharpoonup> int"
  product_variants :: "int \<rightharpoonup> int"
  users :: "int \<rightharpoonup> user_row"
  carts :: "int \<rightharpoonup> int"
  cart_items :: "cart_item_row list"
  orders :: "order_row list"
  order_items :: "OrderItemModel list"
  temp_stock_reservations :: "reservation_row list"
  temp_stock_details :: "detail_row list"
  next_order_id :: int
  next_reservation_id :: int

section \<open>Statements that can fail\<close>

text \<open>
  Every \<^verbatim>\<open>if err != nil\<close> of the source is a branch of the model. Which statement fails
  in a run is decided by an oracle \<open>fails :: stmt \<Rightarrow> bool\<close> given to the handler; the
  constructors name the statement sites, with the loop index where a statement sits in
  a loop. A failed statement leaves the store as it was.
\<close>

datatype stmt =
    SelectCart | SelectCartItems | ScanCartItem nat | SelectHeart
  | Begin | Commit
  | InsertOrder | InsertOrderItem nat
  | InsertReservation | InsertDetail nat | DecreaseStock nat
  | DeleteCartItems | ResetCartTotal
  | SelectOrder | SelectOrderItems | ScanOrderItem nat | RowsErr
  | UpdateStatus | DeleteDetails | DeleteReservations | ReturnStock nat
  | SelectExpiredOrders | ScanExpiredOrder nat | DecreaseHearts
  | SelectDetails | ScanDetail nat
  | SelectHearts

definition no_faults :: "stmt \<Rightarrow> bool" where
  "no_faults st = False"

text \<open>A scan inside \<^verbatim>\<open>for rows.Next()\<close> over \<open>n\<close> rows: does one of them fail?\<close>

definition scan_fails :: "(stmt \<Rightarrow> bool) \<Rightarrow> (nat \<Rightarrow> stmt) \<Rightarrow> nat \<Rightarrow> bool" where
  "scan_fails fails site n = list_ex (\<lambda>i. fails (site i)) [0..<n]"

text \<open>An HTTP response that reports a failure: status code and message.\<close>

type_synonym failure = "nat \<times> string"

text \<open>
  \<^verbatim>\<open>tx.Rollback()\<close> restores the tables to the snapshot at \<^verbatim>\<open>db.Begin()\<close>; the
  \<^verbatim>\<open>AUTO_INCREMENT\<close> counters keep the values they reached.
\<close>

definition rollback :: "db \<Rightarrow> db \<Rightarrow> db" where
  "rollback s0 s = s0\<lparr>next_order_id := next_order_id s,
                      next_reservation_id := next_reservation_id s\<rparr>"

text \<open>Two stores hold the same rows in every table.\<close>

definition unchanged :: "db \<Rightarrow> db \<Rightarrow> bool" where
  "unchanged s s' \<longleftrightarrow>
     products s' = products s \<and> product_variants s' = product_variants s \<and>
     users s' = users s \<and> carts s' = carts s \<and> cart_items s' = cart_items s \<and>
     orders s' = orders s \<and> order_items s' = order_items s \<and>
     temp_stock_reservations s' = temp_stock_reservations s \<and>
     temp_stock_details s' = temp_stock_details s"

section \<open>The stock statements\<close>

text \<open>\<^verbatim>\<open>UPDATE t SET stock = stock - q WHERE id = k AND stock >= q\<close>\<close>

definition cond_decrement :: "(int \<rightharpoonup> int) \<Rightarrow> int \<Rightarrow> int \<Rightarrow> (int \<rightharpoonup> int)" where
  "cond_decrement t k q =
     (case t k of None \<Rightarrow> t
      | Some st \<Rightarrow> if st \<ge> q then t(k \<mapsto> st - q) else t)"

text \<open>\<^verbatim>\<open>UPDATE t SET stock = stock + q WHERE id = k\<close>\<close>

definition increment :: "(int \<rightharpoonup> int) \<Rightarrow> int \<Rightarrow> int \<Rightarrow> (int \<rightharpoonup> int)" where
  "increment t k q =
     (case t k of None \<Rightarrow> t | Some st \<Rightarrow> t(k \<mapsto> st + q))"

text \<open>
  The stock unit of a line is the variant when \<^verbatim>\<open>ProductVariantID != nil\<close>,
  the product otherwise.
\<close>

definition decrease_stock :: "int \<Rightarrow> int option \<Rightarrow> int \<Rightarrow> db \<Rightarrow> db" where
  "decrease_stock pid vid q s =
     (case vid of
        Some v \<Rightarrow> s\<lparr>product_variants := cond_decrement (product_variants s) v q\<rparr>
      | None \<Rightarrow> s\<lparr>products := cond_decrement (products s) pid q\<rparr>)"

definition increase_stock :: "int \<Rightarrow> int option \<Rightarrow> int \<Rightarrow> db \<Rightarrow> db" where
  "increase_stock pid vid q s =
     (case vid of
        Some v \<Rightarrow> s\<lparr>product_variants := increment (product_variants s) v q\<rparr>
      | None \<Rightarrow> s\<lparr>products := increment (products s) pid q\<rparr>)"

section \<open>Order creation\<close>

text \<open>The \<^verbatim>\<open>switch heartCount\<close> of \<^verbatim>\<open>CreateOrder\<close>.\<close>

definition duration :: "int \<Rightarrow> int" where
  "duration heartCount =
     (if heartCount = 3 then 24 * Hour
      else if heartCount = 2 then 12 * Hour
      else if heartCount = 1 then 6 * Hour
      else 6 * Hour)"

definition to_item :: "cart_item_row \<Rightarrow> OrderItemModel" where
  "to_item ci = \<lparr>OrderID = 0, ProductID = ci_product_id ci,
     ProductVariantID = ci_product_variant_id ci, Quantity = ci_quantity ci,
     PriceAtPurchase = ci_price_per_item ci, TotalPrice = ci_total_price ci\<rparr>"

definition detail_of :: "int \<Rightarrow> OrderItemModel \<Rightarrow> detail_row" where
  "detail_of tempResID item = \<lparr>d_temp_reservation_id = tempResID,
     d_product_id = ProductID item, d_product_variant_id = ProductVariantID item,
     d_quantity = Quantity item\<rparr>"

text \<open>
  The loop of \<^verbatim>\<open>CreateStockReservationTx\<close>: insert the detail row, then run the
  conditional decrement. Only \<^verbatim>\<open>err\<close> is inspected; the number of rows the update
  touched is not. The result is the Go \<^verbatim>\<open>error\<close> (\<open>None\<close> for \<^verbatim>\<open>nil\<close>, otherwise the
  text that \<^verbatim>\<open>fmt.Errorf\<close> puts before the driver's message) and the store.
\<close>

fun reserve_loop ::
  "(stmt \<Rightarrow> bool) \<Rightarrow> int \<Rightarrow> nat \<Rightarrow> OrderItemModel list \<Rightarrow> db \<Rightarrow> string option \<times> db" where
  "reserve_loop fails tempResID i [] s = (None, s)"
| "reserve_loop fails tempResID i (item # items) s =
     (if fails (InsertDetail i) then (Some ''gagal insert detail stock'', s)
      else let s1 = s\<lparr>temp_stock_details :=
                        temp_stock_details s @ [detail_of tempResID item]\<rparr>
           in if fails (DecreaseStock i) then (Some ''gagal mengurangi stok'', s1)
              else reserve_loop fails tempResID (Suc i) items
                     (decrease_stock (ProductID item) (ProductVariantID item)
                        (Quantity item) s1))"

definition CreateStockReservationTx ::
  "(stmt \<Rightarrow> bool) \<Rightarrow> time \<Rightarrow> int \<Rightarrow> int \<Rightarrow> OrderItemModel list \<Rightarrow> db \<Rightarrow> string option \<times> db" where
  "CreateStockReservationTx fails now orderID userID items s =
     (if fails InsertReservation then (Some ''gagal insert stock reservation'', s)
      else let tempResID = next_reservation_id s;
               s1 = s\<lparr>temp_stock_reservations := temp_stock_reservations s @
                         [\<lparr>r_id = tempResID, r_user_id = userID, r_order_id = orderID,
                           r_reserved_at = now, r_expired_at = now\<rparr>],
                       next_reservation_id := tempResID + 1\<rparr>
           in reserve_loop fails tempResID 0 items s1)"

fun insert_order_items ::
  "(stmt \<Rightarrow> bool) \<Rightarrow> int \<Rightarrow> nat \<Rightarrow> OrderItemModel list \<Rightarrow> db \<Rightarrow> db option" where
  "insert_order_items fails orderID i [] s = Some s"
| "insert_order_items fails orderID i (item # items) s =
     (if fails (InsertOrderItem i) then None
      else insert_order_items fails orderID (Suc i) items
             (s\<lparr>order_items := order_items s @ [item\<lparr>OrderID := orderID\<rparr>]\<rparr>))"

text \<open>
  The two cart statements at the end of the transaction; \<^verbatim>\<open>_, _ = tx.Exec(...)\<close>
  drops their errors.
\<close>

definition clear_cart :: "(stmt \<Rightarrow> bool) \<Rightarrow> int \<Rightarrow> db \<Rightarrow> db" where
  "clear_cart fails userID s =
     (let s1 = (if fails DeleteCartItems then s
                else s\<lparr>cart_items := filter (\<lambda>ci. ci_cart_id ci \<noteq> userID) (cart_items s)\<rparr>)
      in if fails ResetCartTotal then s1
         else (case carts s1 userID of None \<Rightarrow> s1
               | Some t \<Rightarrow> s1\<lparr>carts := (carts s1)(userID \<mapsto> 0)\<rparr>))"

text \<open>
  The part of \<^verbatim>\<open>CreateOrder\<close> after \<^verbatim>\<open>db.Begin()\<close>. \<open>now\<close> is the clock reading of
  \<^verbatim>\<open>CreateOrder\<close>, \<open>now'\<close> the later one of \<^verbatim>\<open>CreateStockReservationTx\<close>.
\<close>

definition create_order_tx ::
  "(stmt \<Rightarrow> bool) \<Rightarrow> int \<Rightarrow> int \<Rightarrow> OrderItemModel list \<Rightarrow> time \<Rightarrow> time \<Rightarrow> db
     \<Rightarrow> (failure + int \<times> time) \<times> db" where
  "create_order_tx fails userID cartTotal items expiration now' s =
     (if fails InsertOrder then (Inl (500, ''Gagal membuat order''), s)
      else let orderID = next_order_id s;
               s1 = s\<lparr>orders := orders s @
                         [\<lparr>o_id = orderID, o_user_id = userID, o_cart_user_id = Some userID,
                           o_status = ''waitToBuy'', o_total_price = cartTotal,
                           o_timer_expiration = expiration\<rparr>],
                       next_order_id := orderID + 1\<rparr>
           in case insert_order_items fails orderID 0 items s1 of
                None \<Rightarrow> (Inl (500, ''Gagal menyimpan order item''), rollback s s1)
              | Some s2 \<Rightarrow>
                  (case CreateStockReservationTx fails now' orderID userID items s2 of
                     (Some e, s3) \<Rightarrow>
                       (Inl (500, ''Gagal melakukan reservasi stok''), rollback s s3)
                   | (None, s3) \<Rightarrow>
                       let s4 = clear_cart fails userID s3
                       in if fails Commit
                          then (Inl (500, ''Gagal menyelesaikan order''), rollback s s4)
                          else (Inr (orderID, expiration), s4)))"

text \<open>The rows of the user's cart, scanned into \<^verbatim>\<open>items\<close>.\<close>

definition cart_lines :: "int \<Rightarrow> db \<Rightarrow> OrderItemModel list" where
  "cart_lines userID s =
     map to_item (filter (\<lambda>ci. ci_cart_id ci = userID) (cart_items s))"

text \<open>
  \<^verbatim>\<open>CreateOrder\<close>: the cart id is the user id. The answer is the failure response or
  the pair \<^verbatim>\<open>(order_id, expired_at)\<close> of the 200 response, with the store afterwards.
\<close>

definition CreateOrder ::
  "(stmt \<Rightarrow> bool) \<Rightarrow> int \<Rightarrow> time \<Rightarrow> time \<Rightarrow> db \<Rightarrow> (failure + int \<times> time) \<times> db" where
  "CreateOrder fails userID now now' s =
     (case (if fails SelectCart then None else carts s userID) of
        None \<Rightarrow> (Inl (400, ''Cart tidak ditemukan''), s)
      | Some cartTotal \<Rightarrow>
          if fails SelectCartItems then (Inl (500, ''Gagal mengambil cart items''), s)
          else let items = cart_lines userID s
               in if scan_fails fails ScanCartItem (length items)
                  then (Inl (500, ''Gagal membaca cart item''), s)
                  else if items = []
                  then (Inl (400, ''Cart kosong, tidak bisa membuat order''), s)
                  else (case (if fails SelectHeart then None else users s userID) of
                          None \<Rightarrow> (Inl (500, ''Gagal mengambil jumlah hati''), s)
                        | Some u \<Rightarrow>
                            if fails Begin
                            then (Inl (500, ''Gagal memulai transaksi''), s)
                            else create_order_tx fails userID cartTotal items
                                   (now + duration (heart u)) now' s))"

text \<open>
  \<^verbatim>\<open>CreateStockReservation\<close>, the helper with a transaction of its own (no handler
  calls it). It sizes \<^verbatim>\<open>expired_at\<close> from \<^verbatim>\<open>hearts\<close> and returns an error for a value
  outside 1..3 before it writes anything. Its loop decrements first and inserts the
  detail row second. Its error is the driver's, named here by the failing statement,
  or the one it makes with \<^verbatim>\<open>errors.New\<close>.
\<close>

datatype go_error = Driver stmt | New string

fun reserve_loop_own ::
  "(stmt \<Rightarrow> bool) \<Rightarrow> int \<Rightarrow> nat \<Rightarrow> OrderItemModel list \<Rightarrow> db \<Rightarrow> go_error + db" where
  "reserve_loop_own fails reservationID i [] s = Inr s"
| "reserve_loop_own fails reservationID i (item # items) s =
     (if fails (DecreaseStock i) then Inl (Driver (DecreaseStock i))
      else let s1 = decrease_stock (ProductID item) (ProductVariantID item)
                      (Quantity item) s
           in if fails (InsertDetail i) then Inl (Driver (InsertDetail i))
              else reserve_loop_own fails reservationID (Suc i) items
                     (s1\<lparr>temp_stock_details :=
                           temp_stock_details s1 @ [detail_of reservationID item]\<rparr>))"

definition CreateStockReservation ::
  "(stmt \<Rightarrow> bool) \<Rightarrow> time \<Rightarrow> int \<Rightarrow> int \<Rightarrow> OrderItemModel list \<Rightarrow> db \<Rightarrow> go_error option \<times> db" where
  "CreateStockReservation fails now orderID userID items s =
     (if fails Begin then (Some (Driver Begin), s)
      else case (if fails SelectHearts then None else users s userID) of
        None \<Rightarrow> (Some (Driver SelectHearts), s)
      | Some u \<Rightarrow>
          if hearts u \<noteq> 3 \<and> hearts u \<noteq> 2 \<and> hearts u \<noteq> 1
          then (Some (New ''invalid heart count''), s)
          else let expiredAt = (if hearts u = 3 then now + 24 * Hour
                                else if hearts u = 2 then now + 12 * Hour
                                else now + 6 * Hour)
               in if fails InsertReservation then (Some (Driver InsertReservation), s)
                  else let reservationID = next_reservation_id s;
                           s1 = s\<lparr>temp_stock_reservations := temp_stock_reservations s @
                                     [\<lparr>r_id = reservationID, r_user_id = userID,
                                       r_order_id = orderID, r_reserved_at = now,
                                       r_expired_at = expiredAt\<rparr>],
                                   next_reservation_id := reservationID + 1\<rparr>
                       in case reserve_loop_own fails reservationID 0 items s1 of
                            Inl e \<Rightarrow> (Some e, rollback s s1)
                          | Inr s2 \<Rightarrow> (None, s2))"

section \<open>Cancellation\<close>

text \<open>\<^verbatim>\<open>DeleteStockReservationTx\<close>: details of the order's reservations, then the reservations.\<close>

definition delete_details_of_order :: "int \<Rightarrow> db \<Rightarrow> db" where
  "delete_details_of_order orderID s =
     s\<lparr>temp_stock_details :=
         filter (\<lambda>d. d_temp_reservation_id d \<notin>
                       set (map r_id (filter (\<lambda>r. r_order_id r = orderID)
                                        (temp_stock_reservations s))))
           (temp_stock_details s)\<rparr>"

definition delete_reservations_of_order :: "int \<Rightarrow> db \<Rightarrow> db" where
  "delete_reservations_of_order orderID s =
     s\<lparr>temp_stock_reservations :=
         filter (\<lambda>r. r_order_id r \<noteq> orderID) (temp_stock_reservations s)\<rparr>"

definition DeleteStockReservationTx :: "(stmt \<Rightarrow> bool) \<Rightarrow> int \<Rightarrow> db \<Rightarrow> db option" where
  "DeleteStockReservationTx fails orderID s =
     (if fails DeleteDetails then None
      else let s1 = delete_details_of_order orderID s
           in if fails DeleteReservations then None
              else Some (delete_reservations_of_order orderID s1))"

text \<open>\<^verbatim>\<open>ReturnStockToInventoryTx\<close>: an unconditional increment per item.\<close>

fun ReturnStockToInventoryTx ::
  "(stmt \<Rightarrow> bool) \<Rightarrow> nat \<Rightarrow> OrderItemModel list \<Rightarrow> db \<Rightarrow> db option" where
  "ReturnStockToInventoryTx fails i [] s = Some s"
| "ReturnStockToInventoryTx fails i (item # items) s =
     (if fails (ReturnStock i) then None
      else ReturnStockToInventoryTx fails (Suc i) items
             (increase_stock (ProductID item) (ProductVariantID item) (Quantity item) s))"

definition GetOrderItems :: "(stmt \<Rightarrow> bool) \<Rightarrow> int \<Rightarrow> db \<Rightarrow> OrderItemModel list option" where
  "GetOrderItems fails orderID s =
     (if fails SelectOrderItems then None
      else let orderItems = filter (\<lambda>oi. OrderID oi = orderID) (order_items s)
           in if scan_fails fails ScanOrderItem (length orderItems) then None
              else if fails RowsErr then None
              else Some orderItems)"

definition set_status :: "int \<Rightarrow> string \<Rightarrow> db \<Rightarrow> db" where
  "set_status orderID st s =
     s\<lparr>orders := map (\<lambda>row. if o_id row = orderID then row\<lparr>o_status := st\<rparr> else row) (orders s)\<rparr>"

text \<open>The transaction of \<^verbatim>\<open>CancelOrder\<close>.\<close>

definition cancel_order_tx ::
  "(stmt \<Rightarrow> bool) \<Rightarrow> int \<Rightarrow> OrderItemModel list \<Rightarrow> db \<Rightarrow> (failure + string) \<times> db" where
  "cancel_order_tx fails orderID items s =
     (if fails UpdateStatus then (Inl (500, ''Gagal mengubah status order''), s)
      else case DeleteStockReservationTx fails orderID (set_status orderID ''canceled'' s) of
        None \<Rightarrow> (Inl (500, ''Gagal menghapus stock reservation''), s)
      | Some s2 \<Rightarrow>
          (case ReturnStockToInventoryTx fails 0 items s2 of
             None \<Rightarrow> (Inl (500, ''Gagal mengembalikan stok''), s)
           | Some s3 \<Rightarrow>
               if fails Commit then (Inl (500, ''Gagal menyimpan pembatalan''), s)
               else (Inr ''Order berhasil dibatalkan'', s3)))"

text \<open>
  \<^verbatim>\<open>CancelOrder\<close>, from the parsed order id on. \<^verbatim>\<open>QueryRow\<close> reads the first row with
  the id; the three checks run before the transaction opens.
\<close>

definition CancelOrder ::
  "(stmt \<Rightarrow> bool) \<Rightarrow> int \<Rightarrow> int \<Rightarrow> db \<Rightarrow> (failure + string) \<times> db" where
  "CancelOrder fails userID orderID s =
     (if fails SelectOrder then (Inl (500, ''Gagal cek order''), s)
      else case find (\<lambda>row. o_id row = orderID) (orders s) of
        None \<Rightarrow> (Inl (404, ''Order tidak ditemukan''), s)
      | Some order \<Rightarrow>
          if o_user_id order \<noteq> userID
          then (Inl (401, ''Tidak bisa membatalkan order orang lain''), s)
          else if o_status order \<noteq> ''waitToBuy''
          then (Inl (400, ''Order tidak bisa dibatalkan''), s)
          else (case GetOrderItems fails orderID s of
                  None \<Rightarrow> (Inl (500, ''Gagal ambil item order''), s)
                | Some items \<Rightarrow>
                    if fails Begin then (Inl (500, ''Gagal mulai transaksi''), s)
                    else cancel_order_tx fails orderID items s))"

section \<open>Expiry\<close>

text \<open>
  The join of \<^verbatim>\<open>DeleteStockReservationAndReturn\<close>: the detail rows whose reservation
  belongs to the order.
\<close>

definition details_of_order :: "int \<Rightarrow> db \<Rightarrow> detail_row list" where
  "details_of_order orderID s =
     concat (map (\<lambda>d. map (\<lambda>r. d)
                        (filter (\<lambda>r. r_id r = d_temp_reservation_id d \<and> r_order_id r = orderID)
                           (temp_stock_reservations s)))
               (temp_stock_details s))"

fun return_details :: "(stmt \<Rightarrow> bool) \<Rightarrow> nat \<Rightarrow> detail_row list \<Rightarrow> db \<Rightarrow> db option" where
  "return_details fails i [] s = Some s"
| "return_details fails i (detail # stockDetails) s =
     (if fails (ReturnStock i) then None
      else return_details fails (Suc i) stockDetails
             (increase_stock (d_product_id detail) (d_product_variant_id detail)
                (d_quantity detail) s))"

text \<open>
  \<^verbatim>\<open>DeleteStockReservationAndReturn\<close> returns nothing: every failure is logged and
  the deferred \<^verbatim>\<open>tx.Rollback()\<close> undoes the transaction.
\<close>

definition DeleteStockReservationAndReturn :: "(stmt \<Rightarrow> bool) \<Rightarrow> int \<Rightarrow> db \<Rightarrow> db" where
  "DeleteStockReservationAndReturn fails orderID s =
     (if fails Begin then s
      else if fails SelectDetails then s
      else let stockDetails = details_of_order orderID s
           in if scan_fails fails ScanDetail (length stockDetails) then s
              else if fails DeleteDetails then s
              else let s1 = delete_details_of_order orderID s
                   in if fails DeleteReservations then s
                      else let s2 = delete_reservations_of_order orderID s1
                           in case return_details fails 0 stockDetails s2 of
                                None \<Rightarrow> s
                              | Some s3 \<Rightarrow> if fails Commit then s else s3)"

text \<open>\<^verbatim>\<open>UPDATE users SET hearts = hearts - 1 WHERE id = ?\<close>\<close>

definition decrease_hearts :: "int \<Rightarrow> db \<Rightarrow> db" where
  "decrease_hearts userID s =
     (case users s userID of None \<Rightarrow> s
      | Some u \<Rightarrow> s\<lparr>users := (users s)(userID \<mapsto> u\<lparr>hearts := hearts u - 1\<rparr>)\<rparr>)"

text \<open>
  The processing loop of \<^verbatim>\<open>CheckAndExpireOrders\<close> over the pairs (order id, user id).
  The two updates run on \<^verbatim>\<open>db\<close> itself, outside any transaction, and a failure of
  either returns from the handler. \<open>per oid\<close> is the oracle while order \<open>oid\<close> is
  processed.
\<close>

fun expire_loop ::
  "(int \<Rightarrow> stmt \<Rightarrow> bool) \<Rightarrow> (int \<times> int) list \<Rightarrow> db \<Rightarrow> (failure + string) \<times> db" where
  "expire_loop per [] s = (Inr ''Expired orders have been processed'', s)"
| "expire_loop per ((oid, uid) # expiredOrders) s =
     (if per oid UpdateStatus then (Inl (500, ''Failed to update order status''), s)
      else let s1 = set_status oid ''expired'' s
           in if per oid DecreaseHearts then (Inl (500, ''Failed to decrease hearts''), s1)
              else expire_loop per expiredOrders
                     (DeleteStockReservationAndReturn (per oid) oid (decrease_hearts uid s1)))"

definition expired_orders :: "time \<Rightarrow> db \<Rightarrow> (int \<times> int) list" where
  "expired_orders now s =
     map (\<lambda>row. (o_id row, o_user_id row))
       (filter (\<lambda>row. o_status row = ''waitToBuy'' \<and> o_timer_expiration row < now) (orders s))"

text \<open>
  \<^verbatim>\<open>Rows.Scan\<close> of \<^verbatim>\<open>database/sql\<close> returns an error when it is given a number of
  destinations other than the number of columns of the row.
\<close>

definition scan_arity_error :: "nat \<Rightarrow> nat \<Rightarrow> bool" where
  "scan_arity_error columns destinations = (columns \<noteq> destinations)"

text \<open>
  \<^verbatim>\<open>CheckAndExpireOrders\<close>; \<open>now\<close> is the store's \<^verbatim>\<open>NOW()\<close>. The query selects the
  three columns \<^verbatim>\<open>o.id, o.user_id, o.timer_expiration\<close> and the loop scans each row
  with \<^verbatim>\<open>rows.Scan(&order.OrderID, &order.UserID)\<close>, two destinations: the scan of the
  first selected row fails and the handler answers 500 before it writes anything.
  The processing loop is reached with an empty selection only. (The other scans of
  the handlers pass as many destinations as their query has columns.)
\<close>

definition CheckAndExpireOrders ::
  "(stmt \<Rightarrow> bool) \<Rightarrow> (int \<Rightarrow> stmt \<Rightarrow> bool) \<Rightarrow> time \<Rightarrow> db \<Rightarrow> (failure + string) \<times> db" where
  "CheckAndExpireOrders fails per now s =
     (if fails SelectExpiredOrders then (Inl (500, ''Failed to check expired orders''), s)
      else let expiredOrders = expired_orders now s
           in if expiredOrders \<noteq> [] \<and> scan_arity_error 3 2
              then (Inl (500, ''Failed to scan order data''), s)
              else if scan_fails fails ScanExpiredOrder (length expiredOrders)
              then (Inl (500, ''Failed to scan order data''), s)
              else if fails RowsErr then (Inl (500, ''Error iterating rows''), s)
              else expire_loop per expiredOrders s)"

text \<open>
  The query that opens \<^verbatim>\<open>CleanExpiredReservations\<close>: detail rows joined with their
  reservation where \<^verbatim>\<open>expired_at <= NOW()\<close>, as (reservation id, order id, product,
  variant, quantity).
\<close>

definition expired_reservation_details ::
  "time \<Rightarrow> db \<Rightarrow> (int \<times> int \<times> int \<times> int option \<times> int) list" where
  "expired_reservation_details now s =
     concat (map (\<lambda>d. map (\<lambda>r. (d_temp_reservation_id d, r_order_id r, d_product_id d,
                                 d_product_variant_id d, d_quantity d))
                        (filter (\<lambda>r. d_temp_reservation_id d = r_id r \<and> r_expired_at r \<le> now)
                           (temp_stock_reservations s)))
               (temp_stock_details s))"

section \<open>Outcome of a committed cancellation\<close>

text \<open>What \<^verbatim>\<open>ReturnStockToInventoryTx\<close> does when none of its statements fails.\<close>

definition return_all :: "OrderItemModel list \<Rightarrow> db \<Rightarrow> db" where
  "return_all items s =
     fold (\<lambda>item. increase_stock (ProductID item) (ProductVariantID item) (Quantity item))
       items s"

text \<open>
  The store after a committed cancellation of the order: status set, the order's
  reservations and their details deleted, every order item's quantity returned.
\<close>

definition canceled_store :: "int \<Rightarrow> db \<Rightarrow> db" where
  "canceled_store orderID s =
     return_all (filter (\<lambda>oi. OrderID oi = orderID) (order_items s))
       (delete_reservations_of_order orderID
          (delete_details_of_order orderID (set_status orderID ''canceled'' s)))"

section \<open>Runs of the engine and the stock invariant\<close>

text \<open>Every stock column holds a non-negative value.\<close>

definition stock_nonneg :: "db \<Rightarrow> bool" where
  "stock_nonneg s \<longleftrightarrow>
     (\<forall>k st. products s k = Some st \<longrightarrow> 0 \<le> st) \<and>
     (\<forall>k st. product_variants s k = Some st \<longrightarrow> 0 \<le> st)"

text \<open>
  Every recorded quantity is non-negative. The cart handlers reject a quantity that
  is not positive; the order and detail rows are copies of cart lines.
\<close>

definition quantities_nonneg :: "db \<Rightarrow> bool" where
  "quantities_nonneg s \<longleftrightarrow>
     (\<forall>ci \<in> set (cart_items s). 0 \<le> ci_quantity ci) \<and>
     (\<forall>oi \<in> set (order_items s). 0 \<le> Quantity oi) \<and>
     (\<forall>d \<in> set (temp_stock_details s). 0 \<le> d_quantity d)"

text \<open>
  A run of the engine: each handler call is one step, with its oracle and arguments.
\<close>

datatype op =
    Create "stmt \<Rightarrow> bool" int time time
  | Cancel "stmt \<Rightarrow> bool" int int
  | Sweep "stmt \<Rightarrow> bool" "int \<Rightarrow> stmt \<Rightarrow> bool" time

fun step :: "op \<Rightarrow> db \<Rightarrow> db" where
  "step (Create fails userID now now') s = snd (CreateOrder fails userID now now' s)"
| "step (Cancel fails userID orderID) s = snd (CancelOrder fails userID orderID s)"
| "step (Sweep fails per now) s = snd (CheckAndExpireOrders fails per now s)"

definition run :: "op list \<Rightarrow> db \<Rightarrow> db" where
  "run ops s = fold step ops s"

section \<open>Example stores and oracles\<close>

text \<open>
  One product (id 1) with the given stock, one user (id 7) with the given credit in
  both credit columns, and the user's cart holding one line of the product.
\<close>

definition shop :: "int \<Rightarrow> int \<Rightarrow> int \<Rightarrow> db" where
  "shop credit initial qty =
     \<lparr>products = [1 \<mapsto> initial], product_variants = Map.empty,
      users = [7 \<mapsto> \<lparr>heart = credit, hearts = credit\<rparr>], carts = [7 \<mapsto> 100],
      cart_items = [\<lparr>ci_id = 1, ci_cart_id = 7, ci_product_id = 1,
                      ci_product_variant_id = None, ci_quantity = qty,
                      ci_price_per_item = 10, ci_total_price = 100\<rparr>],
      orders = [], order_items = [], temp_stock_reservations = [],
      temp_stock_details = [], next_order_id = 1, next_reservation_id = 1\<rparr>"

text \<open>
  Two products (ids 1 and 2, stock 5 each); the cart of user 7 holds one unit of the
  first and ten of the second.
\<close>

definition shop2 :: db where
  "shop2 =
     \<lparr>products = [1 \<mapsto> 5, 2 \<mapsto> 5], product_variants = Map.empty,
      users = [7 \<mapsto> \<lparr>heart = 3, hearts = 3\<rparr>], carts = [7 \<mapsto> 110],
      cart_items = [\<lparr>ci_id = 1, ci_cart_id = 7, ci_product_id = 1,
                      ci_product_variant_id = None, ci_quantity = 1,
                      ci_price_per_item = 10, ci_total_price = 10\<rparr>,
                    \<lparr>ci_id = 2, ci_cart_id = 7, ci_product_id = 2,
                      ci_product_variant_id = None, ci_quantity = 10,
                      ci_price_per_item = 10, ci_total_price = 100\<rparr>],
      orders = [], order_items = [], temp_stock_reservations = [],
      temp_stock_details = [], next_order_id = 1, next_reservation_id = 1\<rparr>"

text \<open>
  Product 1 with stock 5 and two users, 7 and 8, whose carts each hold three units.
\<close>

definition shop_pair :: db where
  "shop_pair =
     \<lparr>products = [1 \<mapsto> 5], product_variants = Map.empty,
      users = [7 \<mapsto> \<lparr>heart = 3, hearts = 3\<rparr>, 8 \<mapsto> \<lparr>heart = 3, hearts = 3\<rparr>],
      carts = [7 \<mapsto> 30, 8 \<mapsto> 30],
      cart_items = [\<lparr>ci_id = 1, ci_cart_id = 7, ci_product_id = 1,
                      ci_product_variant_id = None, ci_quantity = 3,
                      ci_price_per_item = 10, ci_total_price = 30\<rparr>,
                    \<lparr>ci_id = 2, ci_cart_id = 8, ci_product_id = 1,
                      ci_product_variant_id = None, ci_quantity = 3,
                      ci_price_per_item = 10, ci_total_price = 30\<rparr>],
      orders = [], order_items = [], temp_stock_reservations = [],
      temp_stock_details = [], next_order_id = 1, next_reservation_id = 1\<rparr>"

text \<open>
  The store after user 7 has ordered two units of product 1 out of a stock of ten
  (credit 2, clock readings 1000 and 1001, no failing statement).
\<close>

definition placed :: db where
  "placed = snd (CreateOrder no_faults 7 1000 1001 (shop 2 10 2))"

text \<open>
  The store after user 7 has ordered ten units of product 1 out of a stock of five:
  the order is committed and the stock is untouched.
\<close>

definition oversold :: db where
  "oversold = snd (CreateOrder no_faults 7 1000 1001 (shop 3 5 10))"


text \<open>
  Two overdue orders of user 7 on product 1 (two and three units, stock left 5).
\<close>

definition two_overdue :: db where
  "two_overdue =
     \<lparr>products = [1 \<mapsto> 5], product_variants = Map.empty,
      users = [7 \<mapsto> \<lparr>heart = 3, hearts = 3\<rparr>], carts = [7 \<mapsto> 0],
      cart_items = [],
      orders = [\<lparr>o_id = 1, o_user_id = 7, o_cart_user_id = Some 7,
                  o_status = ''waitToBuy'', o_total_price = 20, o_timer_expiration = 100\<rparr>,
                \<lparr>o_id = 2, o_user_id = 7, o_cart_user_id = Some 7,
                  o_status = ''waitToBuy'', o_total_price = 30, o_timer_expiration = 100\<rparr>],
      order_items = [\<lparr>OrderID = 1, ProductID = 1, ProductVariantID = None, Quantity = 2,
                       PriceAtPurchase = 10, TotalPrice = 20\<rparr>,
                     \<lparr>OrderID = 2, ProductID = 1, ProductVariantID = None, Quantity = 3,
                       PriceAtPurchase = 10, TotalPrice = 30\<rparr>],
      temp_stock_reservations = [\<lparr>r_id = 1, r_user_id = 7, r_order_id = 1,
                                   r_reserved_at = 50, r_expired_at = 50\<rparr>,
                                 \<lparr>r_id = 2, r_user_id = 7, r_order_id = 2,
                                   r_reserved_at = 60, r_expired_at = 60\<rparr>],
      temp_stock_details = [\<lparr>d_temp_reservation_id = 1, d_product_id = 1,
                              d_product_variant_id = None, d_quantity = 2\<rparr>,
                            \<lparr>d_temp_reservation_id = 2, d_product_id = 1,
                              d_product_variant_id = None, d_quantity = 3\<rparr>],
      next_order_id = 3, next_reservation_id = 3\<rparr>"

text \<open>An oracle under which exactly the two cart statements of \<^verbatim>\<open>CreateOrder\<close> fail.\<close>

definition cart_faults :: "stmt \<Rightarrow> bool" where
  "cart_faults st = (st = DeleteCartItems \<or> st = ResetCartTotal)"

text \<open>An oracle under which exactly \<^verbatim>\<open>tx.Commit()\<close> fails.\<close>

definition commit_fault :: "stmt \<Rightarrow> bool" where
  "commit_fault st = (st = Commit)"

text \<open>The oracle of the sweep's per-order work under which no statement fails.\<close>

definition no_faults_per :: "int \<Rightarrow> stmt \<Rightarrow> bool" where
  "no_faults_per oid st = False"

section \<open>Frame properties of the statements\<close>


lemma rollback_unchanged: "unchanged s (rollback s x)"
  by (simp add: unchanged_def rollback_def)

lemma unchanged_refl: "unchanged s s"
  by (simp add: unchanged_def)

lemma decrease_stock_frame [simp]:
  "users (decrease_stock p v q s) = users s"
  "carts (decrease_stock p v q s) = carts s"
  "cart_items (decrease_stock p v q s) = cart_items s"
  "orders (decrease_stock p v q s) = orders s"
  "order_items (decrease_stock p v q s) = order_items s"
  "temp_stock_reservations (decrease_stock p v q s) = temp_stock_reservations s"
  "temp_stock_details (decrease_stock p v q s) = temp_stock_details s"
  "next_order_id (decrease_stock p v q s) = next_order_id s"
  "next_reservation_id (decrease_stock p v q s) = next_reservation_id s"
  by (simp_all add: decrease_stock_def split: option.splits)

lemma increase_stock_frame [simp]:
  "users (increase_stock p v q s) = users s"
  "carts (increase_stock p v q s) = carts s"
  "cart_items (increase_stock p v q s) = cart_items s"
  "orders (increase_stock p v q s) = orders s"
  "order_items (increase_stock p v q s) = order_items s"
  "temp_stock_reservations (increase_stock p v q s) = temp_stock_reservations s"
  "temp_stock_details (increase_stock p v q s) = temp_stock_details s"
  "next_order_id (increase_stock p v q s) = next_order_id s"
  "next_reservation_id (increase_stock p v q s) = next_reservation_id s"
  by (simp_all add: increase_stock_def split: option.splits)

lemma clear_cart_frame [simp]:
  "products (clear_cart fails u s) = products s"
  "product_variants (clear_cart fails u s) = product_variants s"
  "users (clear_cart fails u s) = users s"
  "orders (clear_cart fails u s) = orders s"
  "order_items (clear_cart fails u s) = order_items s"
  "temp_stock_reservations (clear_cart fails u s) = temp_stock_reservations s"
  "temp_stock_details (clear_cart fails u s) = temp_stock_details s"
  "next_order_id (clear_cart fails u s) = next_order_id s"
  "next_reservation_id (clear_cart fails u s) = next_reservation_id s"
  by (simp_all add: clear_cart_def Let_def split: option.splits)

section \<open>Properties of order creation\<close>

lemma insert_order_items_Some:
  "insert_order_items fails oid i items s = Some s' \<Longrightarrow>
     s' = s\<lparr>order_items := order_items s @ map (\<lambda>it. it\<lparr>OrderID := oid\<rparr>) items\<rparr>"
proof (induction items arbitrary: i s)
  case Nil
  then show ?case by simp
next
  case (Cons a items)
  from Cons.prems have "\<not> fails (InsertOrderItem i)" by (auto split: if_splits)
  with Cons.prems Cons.IH [of "Suc i" "s\<lparr>order_items := order_items s @ [a\<lparr>OrderID := oid\<rparr>]\<rparr>"]
  show ?case by simp
qed

lemma insert_order_items_no_fault:
  "\<forall>i. \<not> fails (InsertOrderItem i) \<Longrightarrow> insert_order_items fails oid i items s \<noteq> None"
  by (induction items arbitrary: i s) auto

lemma reserve_loop_frame:
  "reserve_loop fails rid i items s = (e, s') \<Longrightarrow>
     users s' = users s \<and> carts s' = carts s \<and> cart_items s' = cart_items s \<and>
     orders s' = orders s \<and> order_items s' = order_items s \<and>
     temp_stock_reservations s' = temp_stock_reservations s \<and>
     next_order_id s' = next_order_id s \<and> next_reservation_id s' = next_reservation_id s"
  by (induction items arbitrary: i s) (auto simp: Let_def split: if_splits)

lemma reserve_loop_details:
  "reserve_loop fails rid i items s = (None, s') \<Longrightarrow>
     temp_stock_details s' = temp_stock_details s @ map (detail_of rid) items"
  by (induction items arbitrary: i s) (auto simp: Let_def split: if_splits)

lemma reserve_loop_no_fault:
  "\<forall>i. \<not> fails (InsertDetail i) \<and> \<not> fails (DecreaseStock i) \<Longrightarrow>
     fst (reserve_loop fails rid i items s) = None"
  by (induction items arbitrary: i s) (auto simp: Let_def)

lemma create_order_tx_failure:
  "create_order_tx fails u t items exp now' s = (Inl e, s') \<Longrightarrow> unchanged s s'"
  by (auto simp: create_order_tx_def Let_def rollback_unchanged unchanged_refl
      split: if_splits option.splits prod.splits)

lemma CreateOrder_failure:
  "CreateOrder fails u now now' s = (Inl e, s') \<Longrightarrow> unchanged s s'"
  by (auto simp: CreateOrder_def Let_def unchanged_refl
      split: if_splits option.splits dest: create_order_tx_failure)


lemma CreateStockReservationTx_None:
  assumes "CreateStockReservationTx fails now oid u items s = (None, s')"
  shows "temp_stock_reservations s' = temp_stock_reservations s @
           [\<lparr>r_id = next_reservation_id s, r_user_id = u, r_order_id = oid,
             r_reserved_at = now, r_expired_at = now\<rparr>]"
    and "temp_stock_details s' =
           temp_stock_details s @ map (detail_of (next_reservation_id s)) items"
    and "users s' = users s" and "carts s' = carts s" and "cart_items s' = cart_items s"
    and "orders s' = orders s" and "order_items s' = order_items s"
proof -
  let ?s1 = "s\<lparr>temp_stock_reservations := temp_stock_reservations s @
                 [\<lparr>r_id = next_reservation_id s, r_user_id = u, r_order_id = oid,
                   r_reserved_at = now, r_expired_at = now\<rparr>],
               next_reservation_id := next_reservation_id s + 1\<rparr>"
  from assms have loop: "reserve_loop fails (next_reservation_id s) 0 items ?s1 = (None, s')"
    by (simp add: CreateStockReservationTx_def Let_def split: if_splits)
  from reserve_loop_frame [OF loop] reserve_loop_details [OF loop]
  show "temp_stock_reservations s' = temp_stock_reservations s @
           [\<lparr>r_id = next_reservation_id s, r_user_id = u, r_order_id = oid,
             r_reserved_at = now, r_expired_at = now\<rparr>]"
    and "temp_stock_details s' =
           temp_stock_details s @ map (detail_of (next_reservation_id s)) items"
    and "users s' = users s" and "carts s' = carts s" and "cart_items s' = cart_items s"
    and "orders s' = orders s" and "order_items s' = order_items s"
    by simp_all
qed

lemma create_order_tx_success:
  assumes "create_order_tx fails u t items exp now' s = (Inr (oid, e), s')"
  shows "oid = next_order_id s" and "e = exp"
    and "orders s' = orders s @
           [\<lparr>o_id = oid, o_user_id = u, o_cart_user_id = Some u, o_status = ''waitToBuy'',
             o_total_price = t, o_timer_expiration = exp\<rparr>]"
    and "order_items s' = order_items s @ map (\<lambda>it. it\<lparr>OrderID := oid\<rparr>) items"
    and "temp_stock_reservations s' = temp_stock_reservations s @
           [\<lparr>r_id = next_reservation_id s, r_user_id = u, r_order_id = oid,
             r_reserved_at = now', r_expired_at = now'\<rparr>]"
    and "temp_stock_details s' =
           temp_stock_details s @ map (detail_of (next_reservation_id s)) items"
    and "users s' = users s"
    and "cart_items s' =
           (if fails DeleteCartItems then cart_items s
            else filter (\<lambda>ci. ci_cart_id ci \<noteq> u) (cart_items s))"
    and "carts s' =
           (if fails ResetCartTotal then carts s
            else case carts s u of None \<Rightarrow> carts s | Some x \<Rightarrow> (carts s)(u \<mapsto> 0))"
proof -
  let ?s1 = "s\<lparr>orders := orders s @
                 [\<lparr>o_id = next_order_id s, o_user_id = u, o_cart_user_id = Some u,
                   o_status = ''waitToBuy'', o_total_price = t,
                   o_timer_expiration = exp\<rparr>],
               next_order_id := next_order_id s + 1\<rparr>"
  from assms obtain s2 s3 where
    ids: "oid = next_order_id s" "e = exp"
    and ins: "insert_order_items fails (next_order_id s) 0 items ?s1 = Some s2"
    and res: "CreateStockReservationTx fails now' (next_order_id s) u items s2 = (None, s3)"
    and fin: "s' = clear_cart fails u s3"
    by (auto simp: create_order_tx_def Let_def split: if_splits option.splits prod.splits)
  note s2 = insert_order_items_Some [OF ins]
  note r = CreateStockReservationTx_None [OF res]
  show "oid = next_order_id s" and "e = exp" by (rule ids)+
  show "orders s' = orders s @
           [\<lparr>o_id = oid, o_user_id = u, o_cart_user_id = Some u, o_status = ''waitToBuy'',
             o_total_price = t, o_timer_expiration = exp\<rparr>]"
    using fin r(6) s2 ids by simp
  show "order_items s' = order_items s @ map (\<lambda>it. it\<lparr>OrderID := oid\<rparr>) items"
    using fin r(7) s2 ids by simp
  show "temp_stock_reservations s' = temp_stock_reservations s @
           [\<lparr>r_id = next_reservation_id s, r_user_id = u, r_order_id = oid,
             r_reserved_at = now', r_expired_at = now'\<rparr>]"
    using fin r(1) s2 ids by simp
  show "temp_stock_details s' =
           temp_stock_details s @ map (detail_of (next_reservation_id s)) items"
    using fin r(2) s2 by simp
  show "users s' = users s"
    using fin r(3) s2 by simp
  show "cart_items s' =
           (if fails DeleteCartItems then cart_items s
            else filter (\<lambda>ci. ci_cart_id ci \<noteq> u) (cart_items s))"
    using fin r(5) s2 by (simp add: clear_cart_def Let_def split: option.splits)
  show "carts s' =
           (if fails ResetCartTotal then carts s
            else case carts s u of None \<Rightarrow> carts s | Some x \<Rightarrow> (carts s)(u \<mapsto> 0))"
    using fin r(4) s2 by (simp add: clear_cart_def Let_def split: option.splits)
qed

lemma CreateOrder_success:
  assumes "CreateOrder fails u now now' s = (Inr (oid, e), s')"
  shows "\<exists>t usr. carts s u = Some t \<and> users s u = Some usr \<and> cart_lines u s \<noteq> [] \<and>
           create_order_tx fails u t (cart_lines u s) (now + duration (heart usr)) now' s
             = (Inr (oid, e), s')"
  using assms
  by (auto simp: CreateOrder_def Let_def split: if_splits option.splits)

lemma create_order_tx_no_fault:
  assumes "\<forall>st. \<not> fails st"
  shows "fst (create_order_tx fails u t items exp now' s) = Inr (next_order_id s, exp)"
proof -
  let ?s1 = "s\<lparr>orders := orders s @
                 [\<lparr>o_id = next_order_id s, o_user_id = u, o_cart_user_id = Some u,
                   o_status = ''waitToBuy'', o_total_price = t,
                   o_timer_expiration = exp\<rparr>],
               next_order_id := next_order_id s + 1\<rparr>"
  from assms obtain s2 where
    ins: "insert_order_items fails (next_order_id s) 0 items ?s1 = Some s2"
    using insert_order_items_no_fault [of fails "next_order_id s" 0 items ?s1] by auto
  have "fst (CreateStockReservationTx fails now' (next_order_id s) u items s2) = None"
    using assms by (simp add: CreateStockReservationTx_def Let_def reserve_loop_no_fault)
  then obtain s3 where
    res: "CreateStockReservationTx fails now' (next_order_id s) u items s2 = (None, s3)"
    by (metis prod.collapse)
  show ?thesis
    using assms ins res by (simp add: create_order_tx_def Let_def)
qed

lemma CreateOrder_no_fault:
  assumes "\<forall>st. \<not> fails st" and "carts s u = Some t" and "users s u = Some usr"
    and "cart_lines u s \<noteq> []"
  shows "fst (CreateOrder fails u now now' s) = Inr (next_order_id s, now + duration (heart usr))"
  using assms
  by (simp add: CreateOrder_def Let_def scan_fails_def list_ex_iff
      create_order_tx_no_fault)

section \<open>Claims about order creation\<close>

text \<open>
  Claim C1: when the conditional stock decrement of a line does not apply because the
  stock is below the requested quantity, the whole order creation aborts with an
  insufficient-stock error and nothing of the call survives.

  The code runs the decrement and looks at \<^verbatim>\<open>err\<close> only; an update that matches no
  row is not an error. With stock 5 and a cart line of 10, and no failing statement,
  \<^verbatim>\<open>CreateOrder\<close> answers 200: the order, its item, the reservation and the detail of
  quantity 10 are committed and the stock is still 5.
\<close>

theorem C1_insufficient_stock_commits:
  "fst (CreateOrder no_faults 7 1000 1001 (shop 3 5 10)) = Inr (1, 1000 + 24 * Hour) \<and>
   products (snd (CreateOrder no_faults 7 1000 1001 (shop 3 5 10))) 1 = Some 5 \<and>
   orders (snd (CreateOrder no_faults 7 1000 1001 (shop 3 5 10))) =
     [\<lparr>o_id = 1, o_user_id = 7, o_cart_user_id = Some 7, o_status = ''waitToBuy'',
       o_total_price = 100, o_timer_expiration = 1000 + 24 * Hour\<rparr>] \<and>
   order_items (snd (CreateOrder no_faults 7 1000 1001 (shop 3 5 10))) =
     [\<lparr>OrderID = 1, ProductID = 1, ProductVariantID = None, Quantity = 10,
       PriceAtPurchase = 10, TotalPrice = 100\<rparr>] \<and>
   temp_stock_reservations (snd (CreateOrder no_faults 7 1000 1001 (shop 3 5 10))) =
     [\<lparr>r_id = 1, r_user_id = 7, r_order_id = 1, r_reserved_at = 1001, r_expired_at = 1001\<rparr>] \<and>
   temp_stock_details (snd (CreateOrder no_faults 7 1000 1001 (shop 3 5 10))) =
     [\<lparr>d_temp_reservation_id = 1, d_product_id = 1, d_product_variant_id = None,
       d_quantity = 10\<rparr>]"
  by (simp add: CreateOrder_def cart_lines_def shop_def no_faults_def scan_fails_def to_item_def
      create_order_tx_def CreateStockReservationTx_def detail_of_def decrease_stock_def
      cond_decrement_def clear_cart_def duration_def Hour_def)

text \<open>
  Claim C5: order creation sizes the time-to-live from the credit balance (3, 2, 1 give
  24h, 12h, 6h) and, for a balance of 0 or below, fails with an invalid-credit error
  before any mutation rather than taking a default.

  With credit 0 the handler takes the \<^verbatim>\<open>default\<close> branch of its switch, six hours,
  and creates the order.
\<close>

theorem C5_zero_credit_counterexample:
  "fst (CreateOrder no_faults 7 1000 1001 (shop 0 5 1)) = Inr (1, 1000 + 6 * Hour) \<and>
   orders (snd (CreateOrder no_faults 7 1000 1001 (shop 0 5 1))) =
     [\<lparr>o_id = 1, o_user_id = 7, o_cart_user_id = Some 7, o_status = ''waitToBuy'',
       o_total_price = 100, o_timer_expiration = 1000 + 6 * Hour\<rparr>] \<and>
   products (snd (CreateOrder no_faults 7 1000 1001 (shop 0 5 1))) 1 = Some 4"
  by (simp add: CreateOrder_def cart_lines_def shop_def no_faults_def scan_fails_def to_item_def
      create_order_tx_def CreateStockReservationTx_def detail_of_def decrease_stock_def
      cond_decrement_def clear_cart_def duration_def Hour_def)

lemma CreateStockReservation_invalid:
  assumes "\<not> fails Begin" and "\<not> fails SelectHearts" and "users s u = Some usr"
    and "hearts usr \<noteq> 3" and "hearts usr \<noteq> 2" and "hearts usr \<noteq> 1"
  shows "CreateStockReservation fails now oid u items s = (Some (New ''invalid heart count''), s)"
  using assms by (simp add: CreateStockReservation_def)

text \<open>
  Claim C5 as the code has it: \<open>duration\<close> maps 3, 2, 1 to 24h, 12h, 6h and every other
  balance to 6h; an order that is created always carries the deadline
  \<open>now + duration (heart usr)\<close>, and with no failing statement, an existing cart with a
  line and an existing user the handler succeeds whatever the balance. Only the helper
  \<^verbatim>\<open>CreateStockReservation\<close>, which no handler calls, rejects a balance outside 1..3, and
  it does so before writing anything.
\<close>

theorem C5_ttl_from_credit:
  "duration 3 = 24 * Hour \<and> duration 2 = 12 * Hour \<and> duration 1 = 6 * Hour \<and>
   (h \<noteq> 3 \<and> h \<noteq> 2 \<and> h \<noteq> 1 \<longrightarrow> duration h = 6 * Hour) \<and>
   (CreateOrder fails u now now' s = (Inr (oid, e), s') \<longrightarrow>
      (\<exists>usr. users s u = Some usr \<and> e = now + duration (heart usr) \<and>
         (\<exists>row. orders s' = orders s @ [row] \<and>
            o_timer_expiration row = now + duration (heart usr)))) \<and>
   ((\<forall>st. \<not> fails st) \<and> carts s u = Some t \<and> users s u = Some usr \<and> cart_lines u s \<noteq> [] \<longrightarrow>
      fst (CreateOrder fails u now now' s) = Inr (next_order_id s, now + duration (heart usr))) \<and>
   (\<not> fails Begin \<and> \<not> fails SelectHearts \<and> users s u = Some usr \<and>
    hearts usr \<noteq> 3 \<and> hearts usr \<noteq> 2 \<and> hearts usr \<noteq> 1 \<longrightarrow>
      CreateStockReservation fails now oid u items s = (Some (New ''invalid heart count''), s))"
proof -
  have d: "duration 3 = 24 * Hour \<and> duration 2 = 12 * Hour \<and> duration 1 = 6 * Hour \<and>
           (h \<noteq> 3 \<and> h \<noteq> 2 \<and> h \<noteq> 1 \<longrightarrow> duration h = 6 * Hour)"
    by (simp add: duration_def)
  have ok: "\<exists>usr. users s u = Some usr \<and> e = now + duration (heart usr) \<and>
         (\<exists>row. orders s' = orders s @ [row] \<and>
            o_timer_expiration row = now + duration (heart usr))"
    if run: "CreateOrder fails u now now' s = (Inr (oid, e), s')"
  proof -
    from CreateOrder_success [OF run] obtain t usr where
      usr: "users s u = Some usr"
      and tx: "create_order_tx fails u t (cart_lines u s) (now + duration (heart usr)) now' s
                = (Inr (oid, e), s')"
      by blast
    from create_order_tx_success(2,3) [OF tx] usr show ?thesis by simp
  qed
  have nf: "fst (CreateOrder fails u now now' s) = Inr (next_order_id s, now + duration (heart usr))"
    if "(\<forall>st. \<not> fails st) \<and> carts s u = Some t \<and> users s u = Some usr \<and> cart_lines u s \<noteq> []"
    using that CreateOrder_no_fault [of fails s u t usr now now'] by blast
  have sib: "CreateStockReservation fails now oid u items s = (Some (New ''invalid heart count''), s)"
    if "\<not> fails Begin \<and> \<not> fails SelectHearts \<and> users s u = Some usr \<and>
        hearts usr \<noteq> 3 \<and> hearts usr \<noteq> 2 \<and> hearts usr \<noteq> 1"
    using that CreateStockReservation_invalid [of fails s u usr now oid items] by blast
  from d ok nf sib show ?thesis by blast
qed

theorem C5_ttl_from_credit_witness:
  "fst (CreateOrder no_faults 7 1000 1001 (shop (- 2) 5 1)) = Inr (1, 1000 + 6 * Hour) \<and>
   CreateStockReservation no_faults 1000 1 7 [] (shop (- 2) 5 1) =
     (Some (New ''invalid heart count''), shop (- 2) 5 1)"
  using C5_ttl_from_credit [where h = "- 2" and fails = no_faults and u = 7 and now = 1000
      and now' = 1001 and s = "shop (- 2) 5 1" and t = 100
      and usr = "\<lparr>heart = - 2, hearts = - 2\<rparr>"
      and oid = 1 and items = "[]"]
  by (simp add: shop_def no_faults_def cart_lines_def to_item_def duration_def)

section \<open>Claims about the reservation's deadline and atomicity of order creation\<close>

lemma duration_ge: "6 * Hour \<le> duration h"
  by (simp add: duration_def Hour_def)

text \<open>
  Claim C10: every reservation row created by a successful order creation has
  \<^verbatim>\<open>expired_at\<close> equal to \<^verbatim>\<open>reserved_at\<close>, the creation instant, while the order's
  \<^verbatim>\<open>timer_expiration\<close> is the creation time plus the credit-derived duration; so from
  the moment the reservation is written (any \<open>t\<close> with \<open>now' \<le> t\<close>) every detail row of
  the new reservation is selected by the query of \<^verbatim>\<open>CleanExpiredReservations\<close>, although
  up to six hours after \<open>now\<close> the order's own deadline has not passed.
\<close>

theorem C10_reservation_expired_at_creation:
  assumes "CreateOrder fails u now now' s = (Inr (oid, e), s')"
  shows "\<exists>usr rid row.
           users s u = Some usr \<and> e = now + duration (heart usr) \<and>
           temp_stock_reservations s' = temp_stock_reservations s @
             [\<lparr>r_id = rid, r_user_id = u, r_order_id = oid,
               r_reserved_at = now', r_expired_at = now'\<rparr>] \<and>
           orders s' = orders s @ [row] \<and> o_id row = oid \<and>
           o_status row = ''waitToBuy'' \<and>
           o_timer_expiration row = now + duration (heart usr) \<and>
           cart_lines u s \<noteq> [] \<and>
           (\<forall>t. now' \<le> t \<longrightarrow>
              set (map (\<lambda>it. (rid, oid, ProductID it, ProductVariantID it, Quantity it))
                     (cart_lines u s))
                \<subseteq> set (expired_reservation_details t s')) \<and>
           (\<forall>t. t \<le> now + 6 * Hour \<longrightarrow> \<not> o_timer_expiration row < t)"
proof -
  from CreateOrder_success [OF assms] obtain t usr where
    usr: "users s u = Some usr" and ne: "cart_lines u s \<noteq> []"
    and tx: "create_order_tx fails u t (cart_lines u s) (now + duration (heart usr)) now' s
              = (Inr (oid, e), s')"
    by blast
  note f = create_order_tx_success [OF tx]
  let ?rid = "next_reservation_id s"
  let ?row = "\<lparr>o_id = oid, o_user_id = u, o_cart_user_id = Some u, o_status = ''waitToBuy'',
               o_total_price = t, o_timer_expiration = now + duration (heart usr)\<rparr>"
  have sel: "set (map (\<lambda>it. (?rid, oid, ProductID it, ProductVariantID it, Quantity it))
                     (cart_lines u s))
                \<subseteq> set (expired_reservation_details t' s')" if "now' \<le> t'" for t'
    using that by (auto simp: expired_reservation_details_def f(5) f(6) detail_of_def)
  have late: "\<not> o_timer_expiration ?row < t'" if "t' \<le> now + 6 * Hour" for t'
    using that duration_ge [of "heart usr"] by simp
  show ?thesis
    apply (rule exI [of _ usr], rule exI [of _ ?rid], rule exI [of _ ?row])
    using usr ne f(2) f(3) f(5) sel late by simp
qed


lemma shop_cart_lines:
  "cart_lines 7 (shop c st q) =
     [\<lparr>OrderID = 0, ProductID = 1, ProductVariantID = None, Quantity = q,
       PriceAtPurchase = 10, TotalPrice = 100\<rparr>]"
  by (simp add: cart_lines_def shop_def to_item_def)

lemma shop_create_result:
  "fst (CreateOrder no_faults 7 now now' (shop c st q)) = Inr (1, now + duration c)"
  using CreateOrder_no_fault [of no_faults "shop c st q" 7 100 "\<lparr>heart = c, hearts = c\<rparr>" now now']
  by (simp add: no_faults_def shop_cart_lines) (simp add: shop_def)

theorem C10_reservation_expired_at_creation_witness:
  "\<exists>rid. temp_stock_reservations (snd (CreateOrder no_faults 7 1000 1001 (shop 2 5 1))) =
           [\<lparr>r_id = rid, r_user_id = 7, r_order_id = 1,
             r_reserved_at = 1001, r_expired_at = 1001\<rparr>] \<and>
         (rid, 1, 1, None, 1)
           \<in> set (expired_reservation_details 1001
                    (snd (CreateOrder no_faults 7 1000 1001 (shop 2 5 1))))"
proof -
  let ?s' = "snd (CreateOrder no_faults 7 1000 1001 (shop 2 5 1))"
  have run: "CreateOrder no_faults 7 1000 1001 (shop 2 5 1) = (Inr (1, 1000 + duration 2), ?s')"
    using shop_create_result [of 1000 1001 2 5 1] by (simp add: prod_eq_iff)
  from C10_reservation_expired_at_creation [OF run] obtain rid where
    res: "temp_stock_reservations ?s' = temp_stock_reservations (shop 2 5 1) @
             [\<lparr>r_id = rid, r_user_id = 7, r_order_id = 1,
               r_reserved_at = 1001, r_expired_at = 1001\<rparr>]"
    and sel: "\<forall>t. 1001 \<le> t \<longrightarrow>
              set (map (\<lambda>it. (rid, 1, ProductID it, ProductVariantID it, Quantity it))
                     (cart_lines 7 (shop 2 5 1)))
                \<subseteq> set (expired_reservation_details t ?s')"
    by blast
  from sel have "(rid, 1, 1, None, 1) \<in> set (expired_reservation_details 1001 ?s')"
    by (simp add: shop_cart_lines)
  moreover from res have "temp_stock_reservations ?s' =
           [\<lparr>r_id = rid, r_user_id = 7, r_order_id = 1,
             r_reserved_at = 1001, r_expired_at = 1001\<rparr>]"
    by (simp add: shop_def)
  ultimately show ?thesis by blast
qed

text \<open>
  Claim C3: if order creation fails at any step nothing of the attempt is observable;
  either every step (order insert, item inserts, reservation, stock decrements, cart
  clearing) commits or none does, with no partial stock decrement and no stranded cart.

  Two runs that commit a part of the steps. In the first the two cart statements fail:
  their errors are dropped, the order and the stock decrement are committed, and the
  cart keeps its line and its total. In the second no statement fails: the order of
  one unit of product 1 and ten units of product 2 (stock 5 each) is committed with
  the first decrement applied and the second skipped.
\<close>

theorem C3_partial_commit_counterexample:
  "fst (CreateOrder cart_faults 7 1000 1001 (shop 3 5 1)) = Inr (1, 1000 + 24 * Hour) \<and>
   orders (snd (CreateOrder cart_faults 7 1000 1001 (shop 3 5 1))) =
     [\<lparr>o_id = 1, o_user_id = 7, o_cart_user_id = Some 7, o_status = ''waitToBuy'',
       o_total_price = 100, o_timer_expiration = 1000 + 24 * Hour\<rparr>] \<and>
   products (snd (CreateOrder cart_faults 7 1000 1001 (shop 3 5 1))) 1 = Some 4 \<and>
   cart_items (snd (CreateOrder cart_faults 7 1000 1001 (shop 3 5 1))) =
     cart_items (shop 3 5 1) \<and>
   cart_items (shop 3 5 1) \<noteq> [] \<and>
   carts (snd (CreateOrder cart_faults 7 1000 1001 (shop 3 5 1))) 7 = Some 100 \<and>
   fst (CreateOrder no_faults 7 1000 1001 shop2) = Inr (1, 1000 + 24 * Hour) \<and>
   products (snd (CreateOrder no_faults 7 1000 1001 shop2)) 1 = Some 4 \<and>
   products (snd (CreateOrder no_faults 7 1000 1001 shop2)) 2 = Some 5 \<and>
   map d_quantity (temp_stock_details (snd (CreateOrder no_faults 7 1000 1001 shop2))) = [1, 10]"
  by (simp add: CreateOrder_def cart_lines_def shop_def shop2_def no_faults_def cart_faults_def
      scan_fails_def to_item_def
      create_order_tx_def CreateStockReservationTx_def detail_of_def decrease_stock_def
      cond_decrement_def clear_cart_def duration_def Hour_def)

text \<open>
  Claim C3 as the code has it: whatever statements fail, a \<^verbatim>\<open>CreateOrder\<close> that
  answers with a failure leaves every table as it was, and one that answers 200 has
  committed the order row, one item row per cart line, the reservation row and one
  detail row per cart line together. The cart is cleared by statements whose failure
  is ignored: each of the two takes effect exactly when it does not fail.
\<close>

theorem C3_create_order_all_or_nothing:
  assumes "CreateOrder fails u now now' s = (r, s')"
  shows "case r of
           Inl e \<Rightarrow> unchanged s s'
         | Inr (oid, exp) \<Rightarrow>
             (\<exists>t rid.
                orders s' = orders s @
                  [\<lparr>o_id = oid, o_user_id = u, o_cart_user_id = Some u,
                    o_status = ''waitToBuy'', o_total_price = t,
                    o_timer_expiration = exp\<rparr>] \<and>
                order_items s' =
                  order_items s @ map (\<lambda>it. it\<lparr>OrderID := oid\<rparr>) (cart_lines u s) \<and>
                temp_stock_reservations s' = temp_stock_reservations s @
                  [\<lparr>r_id = rid, r_user_id = u, r_order_id = oid,
                    r_reserved_at = now', r_expired_at = now'\<rparr>] \<and>
                temp_stock_details s' =
                  temp_stock_details s @ map (detail_of rid) (cart_lines u s)) \<and>
             cart_items s' =
               (if fails DeleteCartItems then cart_items s
                else filter (\<lambda>ci. ci_cart_id ci \<noteq> u) (cart_items s)) \<and>
             carts s' =
               (if fails ResetCartTotal then carts s
                else case carts s u of None \<Rightarrow> carts s | Some x \<Rightarrow> (carts s)(u \<mapsto> 0))"
proof (cases r)
  case (Inl e)
  with assms show ?thesis by (simp add: CreateOrder_failure)
next
  case (Inr p)
  obtain oid exp where p: "p = (oid, exp)" by (cases p)
  from assms Inr p have run: "CreateOrder fails u now now' s = (Inr (oid, exp), s')" by simp
  from CreateOrder_success [OF run] obtain t usr where
    usr: "users s u = Some usr"
    and tx: "create_order_tx fails u t (cart_lines u s) (now + duration (heart usr)) now' s
              = (Inr (oid, exp), s')"
    by blast
  note f = create_order_tx_success [OF tx]
  have "\<exists>t rid.
                orders s' = orders s @
                  [\<lparr>o_id = oid, o_user_id = u, o_cart_user_id = Some u,
                    o_status = ''waitToBuy'', o_total_price = t,
                    o_timer_expiration = exp\<rparr>] \<and>
                order_items s' =
                  order_items s @ map (\<lambda>it. it\<lparr>OrderID := oid\<rparr>) (cart_lines u s) \<and>
                temp_stock_reservations s' = temp_stock_reservations s @
                  [\<lparr>r_id = rid, r_user_id = u, r_order_id = oid,
                    r_reserved_at = now', r_expired_at = now'\<rparr>] \<and>
                temp_stock_details s' =
                  temp_stock_details s @ map (detail_of rid) (cart_lines u s)"
    apply (rule exI [of _ t], rule exI [of _ "next_reservation_id s"])
    using f(2) f(3) f(4) f(5) f(6) by simp
  with f(8) f(9) Inr p show ?thesis by simp
qed

theorem C3_create_order_all_or_nothing_witness:
  "fst (CreateOrder commit_fault 7 1000 1001 (shop 3 5 1)) = Inl (500, ''Gagal menyelesaikan order'') \<and>
   unchanged (shop 3 5 1) (snd (CreateOrder commit_fault 7 1000 1001 (shop 3 5 1)))"
proof -
  have r: "fst (CreateOrder commit_fault 7 1000 1001 (shop 3 5 1))
             = Inl (500, ''Gagal menyelesaikan order'')"
    by (simp add: CreateOrder_def cart_lines_def shop_def commit_fault_def
      scan_fails_def to_item_def
      create_order_tx_def CreateStockReservationTx_def detail_of_def decrease_stock_def
      cond_decrement_def clear_cart_def duration_def Hour_def)
  from C3_create_order_all_or_nothing [of commit_fault 7 1000 1001 "shop 3 5 1"
      "fst (CreateOrder commit_fault 7 1000 1001 (shop 3 5 1))"
      "snd (CreateOrder commit_fault 7 1000 1001 (shop 3 5 1))"] r
  show ?thesis by (simp add: prod_eq_iff)
qed

section \<open>Properties of cancellation\<close>

lemma ReturnStockToInventoryTx_Some:
  "ReturnStockToInventoryTx fails i items s = Some s' \<Longrightarrow> s' = return_all items s"
proof (induction items arbitrary: i s)
  case Nil
  then show ?case by (simp add: return_all_def)
next
  case (Cons a items)
  from Cons.prems have nf: "\<not> fails (ReturnStock i)" by (auto split: if_splits)
  with Cons.prems Cons.IH [of "Suc i"
      "increase_stock (ProductID a) (ProductVariantID a) (Quantity a) s"]
  show ?case by (simp add: return_all_def)
qed

lemma ReturnStockToInventoryTx_no_fault:
  "\<forall>i. \<not> fails (ReturnStock i) \<Longrightarrow> ReturnStockToInventoryTx fails i items s \<noteq> None"
  by (induction items arbitrary: i s) auto

lemma cancel_order_tx_failure:
  "cancel_order_tx fails oid items s = (Inl e, s') \<Longrightarrow> s' = s"
  by (auto simp: cancel_order_tx_def split: if_splits option.splits)

lemma cancel_order_tx_success:
  "cancel_order_tx fails oid items s = (Inr m, s') \<Longrightarrow>
     m = ''Order berhasil dibatalkan'' \<and>
     s' = return_all items (delete_reservations_of_order oid
            (delete_details_of_order oid (set_status oid ''canceled'' s)))"
  by (auto simp: cancel_order_tx_def DeleteStockReservationTx_def Let_def
      split: if_splits option.splits dest: ReturnStockToInventoryTx_Some)

lemma CancelOrder_failure:
  "CancelOrder fails uid oid s = (Inl e, s') \<Longrightarrow> s' = s"
  by (auto simp: CancelOrder_def split: if_splits option.splits dest: cancel_order_tx_failure)

lemma CancelOrder_success:
  assumes "CancelOrder fails uid oid s = (Inr m, s')"
  shows "\<exists>row. find (\<lambda>row. o_id row = oid) (orders s) = Some row \<and> o_user_id row = uid \<and>
           o_status row = ''waitToBuy''"
    and "m = ''Order berhasil dibatalkan''"
    and "s' = canceled_store oid s"
proof -
  from assms obtain row items where
    row: "find (\<lambda>row. o_id row = oid) (orders s) = Some row" "o_user_id row = uid"
      "o_status row = ''waitToBuy''"
    and items: "GetOrderItems fails oid s = Some items"
    and tx: "cancel_order_tx fails oid items s = (Inr m, s')"
    by (auto simp: CancelOrder_def split: if_splits option.splits)
  from items have "items = filter (\<lambda>oi. OrderID oi = oid) (order_items s)"
    by (auto simp: GetOrderItems_def Let_def split: if_splits)
  with cancel_order_tx_success [OF tx] row
  show "\<exists>row. find (\<lambda>row. o_id row = oid) (orders s) = Some row \<and> o_user_id row = uid \<and>
           o_status row = ''waitToBuy''"
    and "m = ''Order berhasil dibatalkan''"
    and "s' = canceled_store oid s"
    by (simp_all add: canceled_store_def)
qed

lemma return_all_orders [simp]: "orders (return_all items s) = orders s"
  by (induction items arbitrary: s) (simp_all add: return_all_def)

lemma find_set_status:
  "find (\<lambda>row. o_id row = oid) (orders (set_status oid st s)) =
     map_option (\<lambda>row. row\<lparr>o_status := st\<rparr>) (find (\<lambda>row. o_id row = oid) (orders s))"
proof -
  have "find (\<lambda>row. o_id row = oid)
          (map (\<lambda>row. if o_id row = oid then row\<lparr>o_status := st\<rparr> else row) xs) =
        map_option (\<lambda>row. row\<lparr>o_status := st\<rparr>) (find (\<lambda>row. o_id row = oid) xs)" for xs
    by (induction xs) simp_all
  then show ?thesis by (simp add: set_status_def)
qed

lemma canceled_store_orders:
  "orders (canceled_store oid s) = orders (set_status oid ''canceled'' s)"
  by (simp add: canceled_store_def delete_reservations_of_order_def delete_details_of_order_def)

lemma CancelOrder_again:
  assumes "CancelOrder fails uid oid s = (Inr m, s')" and "\<not> fails' SelectOrder"
  shows "CancelOrder fails' uid oid s' = (Inl (400, ''Order tidak bisa dibatalkan''), s')"
proof -
  from CancelOrder_success [OF assms(1)] obtain row where
    row: "find (\<lambda>row. o_id row = oid) (orders s) = Some row" "o_user_id row = uid"
    and s': "s' = canceled_store oid s"
    by blast
  have "find (\<lambda>row. o_id row = oid) (orders s') = Some (row\<lparr>o_status := ''canceled''\<rparr>)"
    using row s' by (simp add: canceled_store_orders find_set_status)
  with assms(2) row(2) show ?thesis by (simp add: CancelOrder_def)
qed

lemma CancelOrder_no_fault:
  assumes "\<forall>st. \<not> fails st"
    and "find (\<lambda>row. o_id row = oid) (orders s) = Some row"
    and "o_user_id row = uid" and "o_status row = ''waitToBuy''"
  shows "CancelOrder fails uid oid s = (Inr ''Order berhasil dibatalkan'', canceled_store oid s)"
proof -
  let ?items = "filter (\<lambda>oi. OrderID oi = oid) (order_items s)"
  have items: "GetOrderItems fails oid s = Some ?items"
    using assms(1) by (simp add: GetOrderItems_def scan_fails_def list_ex_iff)
  let ?s2 = "delete_reservations_of_order oid
               (delete_details_of_order oid (set_status oid ''canceled'' s))"
  obtain s3 where s3: "ReturnStockToInventoryTx fails 0 ?items ?s2 = Some s3"
    using ReturnStockToInventoryTx_no_fault [of fails 0 ?items ?s2] assms(1) by auto
  have "cancel_order_tx fails oid ?items s = (Inr ''Order berhasil dibatalkan'', s3)"
    using assms(1) s3 by (simp add: cancel_order_tx_def DeleteStockReservationTx_def)
  moreover from ReturnStockToInventoryTx_Some [OF s3] have "s3 = canceled_store oid s"
    by (simp add: canceled_store_def)
  ultimately show ?thesis
    using assms items by (simp add: CancelOrder_def)
qed

text \<open>
  Claim C6: \<^verbatim>\<open>CancelOrder\<close> answers not-found (404) when no order has the id,
  forbidden (the handler sends 401) when the requester is not the owner, and
  invalid-transition (400) when the status is not \<^verbatim>\<open>waitToBuy\<close>, in particular on a
  second cancellation of a canceled order; no failure changes the store; and when the
  call succeeds the status change, the deletion of the reservation with its details
  and the return of every order item's quantity are applied together
  (\<open>canceled_store\<close>). The three checks presuppose that the order query itself does
  not fail; with no failing statement and the preconditions met the call succeeds.
\<close>

theorem C6_cancel_order:
  "(\<not> fails SelectOrder \<and> find (\<lambda>row. o_id row = oid) (orders s) = None \<longrightarrow>
      CancelOrder fails uid oid s = (Inl (404, ''Order tidak ditemukan''), s)) \<and>
   (\<not> fails SelectOrder \<and> find (\<lambda>row. o_id row = oid) (orders s) = Some row \<and>
    o_user_id row \<noteq> uid \<longrightarrow>
      CancelOrder fails uid oid s =
        (Inl (401, ''Tidak bisa membatalkan order orang lain''), s)) \<and>
   (\<not> fails SelectOrder \<and> find (\<lambda>row. o_id row = oid) (orders s) = Some row \<and>
    o_user_id row = uid \<and> o_status row \<noteq> ''waitToBuy'' \<longrightarrow>
      CancelOrder fails uid oid s = (Inl (400, ''Order tidak bisa dibatalkan''), s)) \<and>
   (CancelOrder fails uid oid s = (Inl e, s') \<longrightarrow> s' = s) \<and>
   (CancelOrder fails uid oid s = (Inr m, s') \<longrightarrow>
      s' = canceled_store oid s \<and>
      (\<exists>row. find (\<lambda>row. o_id row = oid) (orders s) = Some row \<and> o_user_id row = uid \<and>
         o_status row = ''waitToBuy'') \<and>
      (\<not> fails' SelectOrder \<longrightarrow>
         CancelOrder fails' uid oid s' = (Inl (400, ''Order tidak bisa dibatalkan''), s'))) \<and>
   ((\<forall>st. \<not> fails st) \<and> find (\<lambda>row. o_id row = oid) (orders s) = Some row \<and>
    o_user_id row = uid \<and> o_status row = ''waitToBuy'' \<longrightarrow>
      CancelOrder fails uid oid s =
        (Inr ''Order berhasil dibatalkan'', canceled_store oid s))"
proof -
  have a: "CancelOrder fails uid oid s = (Inl (404, ''Order tidak ditemukan''), s)"
    if "\<not> fails SelectOrder \<and> find (\<lambda>row. o_id row = oid) (orders s) = None"
    using that by (simp add: CancelOrder_def)
  have b: "CancelOrder fails uid oid s =
        (Inl (401, ''Tidak bisa membatalkan order orang lain''), s)"
    if "\<not> fails SelectOrder \<and> find (\<lambda>row. o_id row = oid) (orders s) = Some row \<and>
        o_user_id row \<noteq> uid"
    using that by (simp add: CancelOrder_def)
  have c: "CancelOrder fails uid oid s = (Inl (400, ''Order tidak bisa dibatalkan''), s)"
    if "\<not> fails SelectOrder \<and> find (\<lambda>row. o_id row = oid) (orders s) = Some row \<and>
        o_user_id row = uid \<and> o_status row \<noteq> ''waitToBuy''"
    using that by (simp add: CancelOrder_def)
  have d: "s' = s" if "CancelOrder fails uid oid s = (Inl e, s')"
    using that by (rule CancelOrder_failure)
  have e: "s' = canceled_store oid s \<and>
      (\<exists>row. find (\<lambda>row. o_id row = oid) (orders s) = Some row \<and> o_user_id row = uid \<and>
         o_status row = ''waitToBuy'') \<and>
      (\<not> fails' SelectOrder \<longrightarrow>
         CancelOrder fails' uid oid s' = (Inl (400, ''Order tidak bisa dibatalkan''), s'))"
    if run: "CancelOrder fails uid oid s = (Inr m, s')"
    using CancelOrder_success(1,3) [OF run] CancelOrder_again [OF run, of fails'] by blast
  have f: "CancelOrder fails uid oid s =
        (Inr ''Order berhasil dibatalkan'', canceled_store oid s)"
    if "(\<forall>st. \<not> fails st) \<and> find (\<lambda>row. o_id row = oid) (orders s) = Some row \<and>
        o_user_id row = uid \<and> o_status row = ''waitToBuy''"
    using that CancelOrder_no_fault [of fails oid s row uid] by blast
  from a b c d e f show ?thesis by blast
qed


lemma placed_eq:
  "placed =
     \<lparr>products = [1 \<mapsto> 8], product_variants = Map.empty,
      users = [7 \<mapsto> \<lparr>heart = 2, hearts = 2\<rparr>], carts = [7 \<mapsto> 0],
      cart_items = [],
      orders = [\<lparr>o_id = 1, o_user_id = 7, o_cart_user_id = Some 7,
                  o_status = ''waitToBuy'', o_total_price = 100,
                  o_timer_expiration = 1000 + 12 * Hour\<rparr>],
      order_items = [\<lparr>OrderID = 1, ProductID = 1, ProductVariantID = None, Quantity = 2,
                       PriceAtPurchase = 10, TotalPrice = 100\<rparr>],
      temp_stock_reservations = [\<lparr>r_id = 1, r_user_id = 7, r_order_id = 1,
                                   r_reserved_at = 1001, r_expired_at = 1001\<rparr>],
      temp_stock_details = [\<lparr>d_temp_reservation_id = 1, d_product_id = 1,
                              d_product_variant_id = None, d_quantity = 2\<rparr>],
      next_order_id = 2, next_reservation_id = 2\<rparr>"
  by (simp add: placed_def CreateOrder_def cart_lines_def shop_def no_faults_def scan_fails_def
      to_item_def create_order_tx_def CreateStockReservationTx_def detail_of_def
      decrease_stock_def cond_decrement_def clear_cart_def duration_def Hour_def)

lemma canceled_placed:
  "canceled_store 1 placed =
     \<lparr>products = [1 \<mapsto> 10], product_variants = Map.empty,
      users = [7 \<mapsto> \<lparr>heart = 2, hearts = 2\<rparr>], carts = [7 \<mapsto> 0],
      cart_items = [],
      orders = [\<lparr>o_id = 1, o_user_id = 7, o_cart_user_id = Some 7,
                  o_status = ''canceled'', o_total_price = 100,
                  o_timer_expiration = 1000 + 12 * Hour\<rparr>],
      order_items = [\<lparr>OrderID = 1, ProductID = 1, ProductVariantID = None, Quantity = 2,
                       PriceAtPurchase = 10, TotalPrice = 100\<rparr>],
      temp_stock_reservations = [], temp_stock_details = [],
      next_order_id = 2, next_reservation_id = 2\<rparr>"
  by (simp add: placed_eq canceled_store_def return_all_def increase_stock_def increment_def
      delete_reservations_of_order_def delete_details_of_order_def set_status_def)



theorem C6_cancel_order_witness:
  "CancelOrder no_faults 7 2 placed = (Inl (404, ''Order tidak ditemukan''), placed) \<and>
   CancelOrder no_faults 8 1 placed =
     (Inl (401, ''Tidak bisa membatalkan order orang lain''), placed) \<and>
   CancelOrder no_faults 7 1 placed =
     (Inr ''Order berhasil dibatalkan'', canceled_store 1 placed) \<and>
   products (canceled_store 1 placed) 1 = Some 10 \<and>
   map o_status (orders (canceled_store 1 placed)) = [''canceled''] \<and>
   temp_stock_reservations (canceled_store 1 placed) = [] \<and>
   temp_stock_details (canceled_store 1 placed) = [] \<and>
   CancelOrder no_faults 7 1 (canceled_store 1 placed) =
     (Inl (400, ''Order tidak bisa dibatalkan''), canceled_store 1 placed)"
proof -
  let ?row = "\<lparr>o_id = 1, o_user_id = 7, o_cart_user_id = Some 7,
                o_status = ''waitToBuy'', o_total_price = 100,
                o_timer_expiration = 1000 + 12 * Hour\<rparr>"
  have none: "find (\<lambda>row. o_id row = 2) (orders placed) = None"
    by (simp add: placed_eq)
  have row: "find (\<lambda>row. o_id row = 1) (orders placed) = Some ?row"
    by (simp add: placed_eq)
  have nf: "\<not> no_faults st" for st
    by (simp add: no_faults_def)
  have a: "CancelOrder no_faults 7 2 placed = (Inl (404, ''Order tidak ditemukan''), placed)"
    using C6_cancel_order [where fails = no_faults and oid = 2 and s = placed and uid = 7,
        THEN conjunct1] none nf
    by blast
  have b: "CancelOrder no_faults 8 1 placed =
     (Inl (401, ''Tidak bisa membatalkan order orang lain''), placed)"
    using C6_cancel_order [where fails = no_faults and oid = 1 and s = placed and uid = 8
        and row = ?row, THEN conjunct2, THEN conjunct1] row nf
    by simp
  have c: "CancelOrder no_faults 7 1 placed =
     (Inr ''Order berhasil dibatalkan'', canceled_store 1 placed)"
    using C6_cancel_order [where fails = no_faults and oid = 1 and s = placed and uid = 7
        and row = ?row, THEN conjunct2, THEN conjunct2, THEN conjunct2, THEN conjunct2,
        THEN conjunct2] row nf
    by simp
  have d: "CancelOrder no_faults 7 1 (canceled_store 1 placed) =
     (Inl (400, ''Order tidak bisa dibatalkan''), canceled_store 1 placed)"
    using C6_cancel_order [where fails = no_faults and fails' = no_faults and oid = 1
        and s = placed and uid = 7 and s' = "canceled_store 1 placed"
        and m = "''Order berhasil dibatalkan''", THEN conjunct2, THEN conjunct2,
        THEN conjunct2, THEN conjunct2, THEN conjunct1] c nf
    by blast
  have e: "products (canceled_store 1 placed) 1 = Some 10 \<and>
   map o_status (orders (canceled_store 1 placed)) = [''canceled''] \<and>
   temp_stock_reservations (canceled_store 1 placed) = [] \<and>
   temp_stock_details (canceled_store 1 placed) = []"
    by (simp add: canceled_placed)
  from a b c d e show ?thesis by blast
qed

section \<open>The expiry sweep\<close>

text \<open>
  The sweep never changes the store: with nothing selected its loop has nothing to
  do, and with a selected row the scan fails before any statement is issued.
\<close>

lemma set_status_frame [simp]:
  "products (set_status oid st s) = products s"
  "product_variants (set_status oid st s) = product_variants s"
  "users (set_status oid st s) = users s"
  "carts (set_status oid st s) = carts s"
  "cart_items (set_status oid st s) = cart_items s"
  "order_items (set_status oid st s) = order_items s"
  "temp_stock_reservations (set_status oid st s) = temp_stock_reservations s"
  "temp_stock_details (set_status oid st s) = temp_stock_details s"
  by (simp_all add: set_status_def)

lemma CheckAndExpireOrders_store: "snd (CheckAndExpireOrders fails per now s) = s"
  by (cases "expired_orders now s")
    (simp_all add: CheckAndExpireOrders_def scan_arity_error_def)

lemma CheckAndExpireOrders_selected:
  assumes "expired_orders now s \<noteq> []" and "\<not> fails SelectExpiredOrders"
  shows "CheckAndExpireOrders fails per now s = (Inl (500, ''Failed to scan order data''), s)"
  using assms by (simp add: CheckAndExpireOrders_def scan_arity_error_def)

text \<open>
  Claim C7: the sweep processes each expired order in a transaction of its own that
  covers all four effects (status, reservation deletion, stock release, credit
  decrement), and a failure on one order does not keep the others from being
  processed.

  Two overdue orders and no failing statement: the query selects both, the scan of
  the first row (three columns, two destinations) fails, and the handler answers 500
  \<^verbatim>\<open>Failed to scan order data\<close>. Neither order is processed: both stay
  \<^verbatim>\<open>waitToBuy\<close>, both reservations stay, the stock and the credit are as before.
\<close>

theorem C7_sweep_processes_nothing:
  "expired_orders 101 two_overdue = [(1, 7), (2, 7)] \<and>
   CheckAndExpireOrders no_faults no_faults_per 101 two_overdue =
     (Inl (500, ''Failed to scan order data''), two_overdue) \<and>
   map o_status (orders two_overdue) = [''waitToBuy'', ''waitToBuy''] \<and>
   map r_order_id (temp_stock_reservations two_overdue) = [1, 2] \<and>
   products two_overdue 1 = Some 5 \<and>
   users two_overdue 7 = Some \<lparr>heart = 3, hearts = 3\<rparr>"
proof -
  have sel: "expired_orders 101 two_overdue = [(1, 7), (2, 7)]"
    by (simp add: expired_orders_def two_overdue_def)
  have nf: "\<not> no_faults SelectExpiredOrders" by (simp add: no_faults_def)
  have run: "CheckAndExpireOrders no_faults no_faults_per 101 two_overdue =
     (Inl (500, ''Failed to scan order data''), two_overdue)"
    by (rule CheckAndExpireOrders_selected) (simp_all add: sel nf)
  from sel run show ?thesis by (simp add: two_overdue_def)
qed



section \<open>The credit balance\<close>

text \<open>
  No handler of the engine writes the \<^verbatim>\<open>users\<close> table: order creation and
  cancellation have no statement on it, and the sweep's \<^verbatim>\<open>UPDATE users\<close> sits in the
  loop that a selected row never reaches.
\<close>

lemma return_all_frame [simp]:
  "users (return_all items s) = users s"
  "carts (return_all items s) = carts s"
  "cart_items (return_all items s) = cart_items s"
  "order_items (return_all items s) = order_items s"
  "temp_stock_reservations (return_all items s) = temp_stock_reservations s"
  "temp_stock_details (return_all items s) = temp_stock_details s"
  by (induction items arbitrary: s; simp add: return_all_def)+







section \<open>The stock invariant\<close>

text \<open>
  The conditional decrement changes a stock \<open>st\<close> to \<open>st - q\<close> exactly when \<open>q \<le> st\<close>,
  and every release adds a recorded quantity. So from a store whose stocks and
  recorded quantities are non-negative every run of handler calls, under any oracle,
  ends in such a store (\<open>run_inv\<close>).
\<close>

lemma cond_decrement_at:
  "t k = Some st \<Longrightarrow> cond_decrement t k q k = Some (if q \<le> st then st - q else st)"
  by (simp add: cond_decrement_def)

lemma cond_decrement_nonneg:
  assumes "\<forall>k st. t k = Some st \<longrightarrow> 0 \<le> st"
  shows "\<forall>k' st. cond_decrement t k q k' = Some st \<longrightarrow> 0 \<le> st"
  using assms by (auto simp: cond_decrement_def split: option.splits if_splits)

lemma increment_nonneg:
  assumes "\<forall>k st. t k = Some st \<longrightarrow> 0 \<le> st" and "0 \<le> q"
  shows "\<forall>k' st. increment t k q k' = Some st \<longrightarrow> 0 \<le> st"
  using assms by (auto simp: increment_def split: option.splits if_splits)

lemma decrease_stock_nonneg:
  assumes "stock_nonneg s"
  shows "stock_nonneg (decrease_stock p v q s)"
proof (cases v)
  case None
  from assms have "\<forall>k st. products s k = Some st \<longrightarrow> 0 \<le> st"
    by (simp add: stock_nonneg_def)
  from cond_decrement_nonneg [OF this, of p q] assms None show ?thesis
    by (simp add: stock_nonneg_def decrease_stock_def)
next
  case (Some x)
  from assms have "\<forall>k st. product_variants s k = Some st \<longrightarrow> 0 \<le> st"
    by (simp add: stock_nonneg_def)
  from cond_decrement_nonneg [OF this, of x q] assms Some show ?thesis
    by (simp add: stock_nonneg_def decrease_stock_def)
qed

lemma increase_stock_nonneg:
  assumes "stock_nonneg s" and "0 \<le> q"
  shows "stock_nonneg (increase_stock p v q s)"
proof (cases v)
  case None
  from assms have "\<forall>k st. products s k = Some st \<longrightarrow> 0 \<le> st"
    by (simp add: stock_nonneg_def)
  from increment_nonneg [OF this assms(2), of p] assms None show ?thesis
    by (simp add: stock_nonneg_def increase_stock_def)
next
  case (Some x)
  from assms have "\<forall>k st. product_variants s k = Some st \<longrightarrow> 0 \<le> st"
    by (simp add: stock_nonneg_def)
  from increment_nonneg [OF this assms(2), of x] assms Some show ?thesis
    by (simp add: stock_nonneg_def increase_stock_def)
qed

lemma reserve_loop_stock_nonneg:
  "stock_nonneg s \<Longrightarrow> stock_nonneg (snd (reserve_loop fails rid i items s))"
proof (induction items arbitrary: i s)
  case Nil
  then show ?case by simp
next
  case (Cons a items)
  let ?s1 = "s\<lparr>temp_stock_details := temp_stock_details s @ [detail_of rid a]\<rparr>"
  from Cons.prems have s1: "stock_nonneg ?s1" by (simp add: stock_nonneg_def)
  then have "stock_nonneg (decrease_stock (ProductID a) (ProductVariantID a) (Quantity a) ?s1)"
    by (rule decrease_stock_nonneg)
  from Cons.IH [OF this] s1 Cons.prems show ?case by (simp add: Let_def)
qed

lemma rollback_stock [simp]:
  "products (rollback s x) = products s"
  "product_variants (rollback s x) = product_variants s"
  by (simp_all add: rollback_def)

lemma create_order_tx_stock_nonneg:
  assumes "stock_nonneg s"
  shows "stock_nonneg (snd (create_order_tx fails u t items exp now' s))"
proof -
  let ?s1 = "s\<lparr>orders := orders s @
                 [\<lparr>o_id = next_order_id s, o_user_id = u, o_cart_user_id = Some u,
                   o_status = ''waitToBuy'', o_total_price = t,
                   o_timer_expiration = exp\<rparr>],
               next_order_id := next_order_id s + 1\<rparr>"
  have rb: "stock_nonneg (rollback s x)" for x
    using assms by (simp add: stock_nonneg_def)
  show ?thesis
  proof (cases "fails InsertOrder")
    case True
    with assms show ?thesis by (simp add: create_order_tx_def)
  next
    case False
    show ?thesis
    proof (cases "insert_order_items fails (next_order_id s) 0 items ?s1")
      case None
      with False rb show ?thesis by (simp add: create_order_tx_def Let_def)
    next
      case (Some s2)
      from insert_order_items_Some [OF Some] assms have s2: "stock_nonneg s2"
        by (simp add: stock_nonneg_def)
      obtain e s3 where res:
        "CreateStockReservationTx fails now' (next_order_id s) u items s2 = (e, s3)"
        by (cases "CreateStockReservationTx fails now' (next_order_id s) u items s2")
      have s3: "stock_nonneg s3"
      proof (cases "fails InsertReservation")
        case True
        with res s2 show ?thesis by (simp add: CreateStockReservationTx_def)
      next
        case nf: False
        let ?s2' = "s2\<lparr>temp_stock_reservations := temp_stock_reservations s2 @
                         [\<lparr>r_id = next_reservation_id s2, r_user_id = u,
                           r_order_id = next_order_id s,
                           r_reserved_at = now', r_expired_at = now'\<rparr>],
                       next_reservation_id := next_reservation_id s2 + 1\<rparr>"
        from s2 have "stock_nonneg ?s2'" by (simp add: stock_nonneg_def)
        from reserve_loop_stock_nonneg [OF this, of fails "next_reservation_id s2" 0 items]
          res nf show ?thesis
          by (simp add: CreateStockReservationTx_def Let_def)
      qed
      then have "stock_nonneg (clear_cart fails u s3)"
        by (simp add: stock_nonneg_def)
      with False Some res rb show ?thesis
        by (cases e) (simp_all add: create_order_tx_def Let_def)
    qed
  qed
qed

lemma CreateOrder_stock_nonneg:
  "stock_nonneg s \<Longrightarrow> stock_nonneg (snd (CreateOrder fails u now now' s))"
  by (simp add: CreateOrder_def Let_def create_order_tx_stock_nonneg split: option.splits)

lemma unchanged_quantities:
  "unchanged s s' \<Longrightarrow> quantities_nonneg s' = quantities_nonneg s"
  by (simp add: unchanged_def quantities_nonneg_def)

lemma cart_lines_quantities:
  "quantities_nonneg s \<Longrightarrow> \<forall>it \<in> set (cart_lines u s). 0 \<le> Quantity it"
  by (auto simp: quantities_nonneg_def cart_lines_def to_item_def)

lemma CreateOrder_quantities_nonneg:
  assumes "quantities_nonneg s"
  shows "quantities_nonneg (snd (CreateOrder fails u now now' s))"
proof (cases "fst (CreateOrder fails u now now' s)")
  case (Inl e)
  then have "CreateOrder fails u now now' s = (Inl e, snd (CreateOrder fails u now now' s))"
    by (simp add: prod_eq_iff)
  from CreateOrder_failure [OF this] assms show ?thesis
    by (simp add: unchanged_quantities)
next
  case (Inr p)
  let ?s' = "snd (CreateOrder fails u now now' s)"
  obtain oid e where p: "p = (oid, e)" by (cases p)
  with Inr have run: "CreateOrder fails u now now' s = (Inr (oid, e), ?s')"
    by (simp add: prod_eq_iff)
  from CreateOrder_success [OF run] obtain t usr where
    usr: "users s u = Some usr"
    and tx: "create_order_tx fails u t (cart_lines u s) (now + duration (heart usr)) now' s
               = (Inr (oid, e), ?s')"
    by blast
  note f = create_order_tx_success [OF tx]
  note q = cart_lines_quantities [OF assms, of u]
  have c: "\<forall>ci \<in> set (cart_items ?s'). 0 \<le> ci_quantity ci"
    using assms by (auto simp: f(8) quantities_nonneg_def)
  have o: "\<forall>oi \<in> set (order_items ?s'). 0 \<le> Quantity oi"
    using assms q by (auto simp: f(4) quantities_nonneg_def)
  have d: "\<forall>d \<in> set (temp_stock_details ?s'). 0 \<le> d_quantity d"
    using assms q by (auto simp: f(6) quantities_nonneg_def detail_of_def)
  from c o d show ?thesis by (simp add: quantities_nonneg_def)
qed

lemma return_all_stock_nonneg:
  "stock_nonneg s \<Longrightarrow> \<forall>it \<in> set items. 0 \<le> Quantity it \<Longrightarrow>
     stock_nonneg (return_all items s)"
proof (induction items arbitrary: s)
  case Nil
  then show ?case by (simp add: return_all_def)
next
  case (Cons a items)
  from Cons.prems have "stock_nonneg (increase_stock (ProductID a) (ProductVariantID a)
                                        (Quantity a) s)"
    by (simp add: increase_stock_nonneg)
  from Cons.IH [OF this] Cons.prems(2) show ?case by (simp add: return_all_def)
qed

lemma canceled_store_inv:
  assumes "stock_nonneg s" and "quantities_nonneg s"
  shows "stock_nonneg (canceled_store oid s)" and "quantities_nonneg (canceled_store oid s)"
proof -
  let ?b = "delete_reservations_of_order oid
              (delete_details_of_order oid (set_status oid ''canceled'' s))"
  have b: "stock_nonneg ?b"
    using assms(1)
    by (simp add: stock_nonneg_def delete_reservations_of_order_def
        delete_details_of_order_def)
  have q: "\<forall>it \<in> set (filter (\<lambda>oi. OrderID oi = oid) (order_items s)). 0 \<le> Quantity it"
    using assms(2) by (simp add: quantities_nonneg_def)
  from return_all_stock_nonneg [OF b q] show "stock_nonneg (canceled_store oid s)"
    by (simp add: canceled_store_def)
  from assms(2) show "quantities_nonneg (canceled_store oid s)"
    by (simp add: canceled_store_def quantities_nonneg_def delete_reservations_of_order_def
        delete_details_of_order_def)
qed

lemma CancelOrder_inv:
  assumes "stock_nonneg s" and "quantities_nonneg s"
  shows "stock_nonneg (snd (CancelOrder fails uid oid s))"
    and "quantities_nonneg (snd (CancelOrder fails uid oid s))"
proof -
  let ?r = "CancelOrder fails uid oid s"
  have "snd ?r = s \<or> snd ?r = canceled_store oid s"
  proof (cases "fst ?r")
    case (Inl e)
    then have "?r = (Inl e, snd ?r)" by (simp add: prod_eq_iff)
    from CancelOrder_failure [OF this] show ?thesis by simp
  next
    case (Inr m)
    then have "?r = (Inr m, snd ?r)" by (simp add: prod_eq_iff)
    from CancelOrder_success(3) [OF this] show ?thesis by simp
  qed
  with assms canceled_store_inv [OF assms, of oid]
  show "stock_nonneg (snd ?r)" and "quantities_nonneg (snd ?r)" by auto
qed

lemma step_inv:
  assumes "stock_nonneg s" and "quantities_nonneg s"
  shows "stock_nonneg (step x s)" and "quantities_nonneg (step x s)"
  using assms
  by (cases x; simp add: CreateOrder_stock_nonneg CreateOrder_quantities_nonneg
      CancelOrder_inv CheckAndExpireOrders_store)+

lemma run_inv:
  "stock_nonneg s \<Longrightarrow> quantities_nonneg s \<Longrightarrow>
     stock_nonneg (run ops s) \<and> quantities_nonneg (run ops s)"
  unfolding run_def
  by (induction ops arbitrary: s) (simp_all add: step_inv)

lemmas create_eval = CreateOrder_def cart_lines_def no_faults_def scan_fails_def to_item_def
  create_order_tx_def CreateStockReservationTx_def detail_of_def decrease_stock_def
  cond_decrement_def clear_cart_def duration_def Hour_def

lemma shop_pair_first:
  "CreateOrder no_faults 7 1000 1001 shop_pair =
     (Inr (1, 1000 + 24 * Hour),
      \<lparr>products = [1 \<mapsto> 2], product_variants = Map.empty,
       users = [7 \<mapsto> \<lparr>heart = 3, hearts = 3\<rparr>, 8 \<mapsto> \<lparr>heart = 3, hearts = 3\<rparr>],
       carts = [7 \<mapsto> 0, 8 \<mapsto> 30],
       cart_items = [\<lparr>ci_id = 2, ci_cart_id = 8, ci_product_id = 1,
                       ci_product_variant_id = None, ci_quantity = 3,
                       ci_price_per_item = 10, ci_total_price = 30\<rparr>],
       orders = [\<lparr>o_id = 1, o_user_id = 7, o_cart_user_id = Some 7,
                   o_status = ''waitToBuy'', o_total_price = 30,
                   o_timer_expiration = 1000 + 24 * Hour\<rparr>],
       order_items = [\<lparr>OrderID = 1, ProductID = 1, ProductVariantID = None, Quantity = 3,
                        PriceAtPurchase = 10, TotalPrice = 30\<rparr>],
       temp_stock_reservations = [\<lparr>r_id = 1, r_user_id = 7, r_order_id = 1,
                                    r_reserved_at = 1001, r_expired_at = 1001\<rparr>],
       temp_stock_details = [\<lparr>d_temp_reservation_id = 1, d_product_id = 1,
                               d_product_variant_id = None, d_quantity = 3\<rparr>],
       next_order_id = 2, next_reservation_id = 2\<rparr>)"
  by (simp add: create_eval shop_pair_def fun_upd_twist)

lemma shop_pair_second:
  "CreateOrder no_faults 8 1002 1003 (snd (CreateOrder no_faults 7 1000 1001 shop_pair)) =
     (Inr (2, 1002 + 24 * Hour),
      \<lparr>products = [1 \<mapsto> 2], product_variants = Map.empty,
       users = [7 \<mapsto> \<lparr>heart = 3, hearts = 3\<rparr>, 8 \<mapsto> \<lparr>heart = 3, hearts = 3\<rparr>],
       carts = [7 \<mapsto> 0, 8 \<mapsto> 0],
       cart_items = [],
       orders = [\<lparr>o_id = 1, o_user_id = 7, o_cart_user_id = Some 7,
                   o_status = ''waitToBuy'', o_total_price = 30,
                   o_timer_expiration = 1000 + 24 * Hour\<rparr>,
                 \<lparr>o_id = 2, o_user_id = 8, o_cart_user_id = Some 8,
                   o_status = ''waitToBuy'', o_total_price = 30,
                   o_timer_expiration = 1002 + 24 * Hour\<rparr>],
       order_items = [\<lparr>OrderID = 1, ProductID = 1, ProductVariantID = None, Quantity = 3,
                        PriceAtPurchase = 10, TotalPrice = 30\<rparr>,
                      \<lparr>OrderID = 2, ProductID = 1, ProductVariantID = None, Quantity = 3,
                        PriceAtPurchase = 10, TotalPrice = 30\<rparr>],
       temp_stock_reservations = [\<lparr>r_id = 1, r_user_id = 7, r_order_id = 1,
                                    r_reserved_at = 1001, r_expired_at = 1001\<rparr>,
                                  \<lparr>r_id = 2, r_user_id = 8, r_order_id = 2,
                                    r_reserved_at = 1003, r_expired_at = 1003\<rparr>],
       temp_stock_details = [\<lparr>d_temp_reservation_id = 1, d_product_id = 1,
                               d_product_variant_id = None, d_quantity = 3\<rparr>,
                             \<lparr>d_temp_reservation_id = 2, d_product_id = 1,
                               d_product_variant_id = None, d_quantity = 3\<rparr>],
       next_order_id = 3, next_reservation_id = 3\<rparr>)"
  by (simp add: shop_pair_first) (simp add: create_eval)

text \<open>
  Claim C2: for every stock unit and every sequence of order creations, cancellations
  and sweeps the stock stays a non-negative integer: it is decremented only when it is
  at least the requested quantity, and for a unit with initial stock \<open>S\<close> the sum of the
  quantities successfully reserved by order creations never exceeds \<open>S\<close>.

  The stock does stay non-negative. The bound on what the calls reserve does not
  hold: from a stock of five, users 7 and 8 each order three units. Both calls answer
  200; the second decrement is skipped without an error, so the two committed orders
  and their reservation details record 3 + 3 = 6 units against a stock of 5, of which
  2 are left.
\<close>

theorem C2_reserved_beyond_stock:
  "products shop_pair 1 = Some 5 \<and>
   fst (CreateOrder no_faults 7 1000 1001 shop_pair) = Inr (1, 1000 + 24 * Hour) \<and>
   fst (CreateOrder no_faults 8 1002 1003 (snd (CreateOrder no_faults 7 1000 1001 shop_pair))) =
     Inr (2, 1002 + 24 * Hour) \<and>
   map d_quantity (temp_stock_details
     (snd (CreateOrder no_faults 8 1002 1003
        (snd (CreateOrder no_faults 7 1000 1001 shop_pair))))) = [3, 3] \<and>
   map Quantity (order_items
     (snd (CreateOrder no_faults 8 1002 1003
        (snd (CreateOrder no_faults 7 1000 1001 shop_pair))))) = [3, 3] \<and>
   products (snd (CreateOrder no_faults 8 1002 1003
        (snd (CreateOrder no_faults 7 1000 1001 shop_pair)))) 1 = Some 2"
proof -
  have a: "products shop_pair 1 = Some 5" by (simp add: shop_pair_def)
  have b: "fst (CreateOrder no_faults 7 1000 1001 shop_pair) = Inr (1, 1000 + 24 * Hour)"
    by (simp add: shop_pair_first)
  show ?thesis
    unfolding shop_pair_second using a b by simp
qed

section \<open>Conservation of stock\<close>

lemma oversold_eq:
  "oversold =
     \<lparr>products = [1 \<mapsto> 5], product_variants = Map.empty,
      users = [7 \<mapsto> \<lparr>heart = 3, hearts = 3\<rparr>], carts = [7 \<mapsto> 0],
      cart_items = [],
      orders = [\<lparr>o_id = 1, o_user_id = 7, o_cart_user_id = Some 7,
                  o_status = ''waitToBuy'', o_total_price = 100,
                  o_timer_expiration = 1000 + 24 * Hour\<rparr>],
      order_items = [\<lparr>OrderID = 1, ProductID = 1, ProductVariantID = None, Quantity = 10,
                       PriceAtPurchase = 10, TotalPrice = 100\<rparr>],
      temp_stock_reservations = [\<lparr>r_id = 1, r_user_id = 7, r_order_id = 1,
                                   r_reserved_at = 1001, r_expired_at = 1001\<rparr>],
      temp_stock_details = [\<lparr>d_temp_reservation_id = 1, d_product_id = 1,
                              d_product_variant_id = None, d_quantity = 10\<rparr>],
      next_order_id = 2, next_reservation_id = 2\<rparr>"
  by (simp add: oversold_def create_eval shop_def)

lemma oversold_cancel:
  "CancelOrder no_faults 7 1 oversold =
     (Inr ''Order berhasil dibatalkan'',
      \<lparr>products = [1 \<mapsto> 15], product_variants = Map.empty,
       users = [7 \<mapsto> \<lparr>heart = 3, hearts = 3\<rparr>], carts = [7 \<mapsto> 0],
       cart_items = [],
       orders = [\<lparr>o_id = 1, o_user_id = 7, o_cart_user_id = Some 7,
                   o_status = ''canceled'', o_total_price = 100,
                   o_timer_expiration = 1000 + 24 * Hour\<rparr>],
       order_items = [\<lparr>OrderID = 1, ProductID = 1, ProductVariantID = None, Quantity = 10,
                        PriceAtPurchase = 10, TotalPrice = 100\<rparr>],
       temp_stock_reservations = [], temp_stock_details = [],
       next_order_id = 2, next_reservation_id = 2\<rparr>)"
  by (simp add: oversold_eq CancelOrder_def GetOrderItems_def scan_fails_def no_faults_def
      cancel_order_tx_def DeleteStockReservationTx_def delete_details_of_order_def
      delete_reservations_of_order_def set_status_def increase_stock_def increment_def)

text \<open>
  Claim C4: for every order that ends canceled or expired, the quantity released to
  each stock unit equals the quantity that was subtracted from it when the order was
  created; a reserve followed by a cancel restores the stock.

  Ten units are ordered from a stock of five. The decrement is skipped and the order
  is committed with the stock at 5; cancelling the order returns its ten units: the
  stock is 15, ten more than before the order, although nothing had been subtracted.
\<close>

theorem C4_release_without_reserve:
  "products (shop 3 5 10) 1 = Some 5 \<and>
   fst (CreateOrder no_faults 7 1000 1001 (shop 3 5 10)) = Inr (1, 1000 + 24 * Hour) \<and>
   products oversold 1 = Some 5 \<and>
   fst (CancelOrder no_faults 7 1 oversold) = Inr ''Order berhasil dibatalkan'' \<and>
   products (snd (CancelOrder no_faults 7 1 oversold)) 1 = Some 15"
proof -
  have a: "products (shop 3 5 10) 1 = Some 5" by (simp add: shop_def)
  have b: "fst (CreateOrder no_faults 7 1000 1001 (shop 3 5 10)) = Inr (1, 1000 + 24 * Hour)"
    using shop_create_result [of 1000 1001 3 5 10] by (simp add: duration_def)
  have c: "products oversold 1 = Some 5" by (simp add: oversold_eq)
  show ?thesis
    unfolding oversold_cancel using a b c by simp
qed

end
